theory Spec2Isabelle
  imports Complex_Main "HOL-Library.Multiset"
begin

section \<open>Errors raised by the package\<close>

text \<open>
  Every \<^verbatim>\<open>raise\<close> of the Python sources is a value of this type; a function that can
  raise returns \<open>error + 'a\<close>, with \<open>Inl\<close> carrying the exception. The string is the
  message of the exception (for \<^verbatim>\<open>InvalidProperty\<close> the two arguments of its constructor; the
  last two exceptions are raised by the data-frame library, their messages are left
  out). A message that interpolates an integer, a shape or a string
  is built with them; where an f-string interpolates floating-point values, for which the
  model has no decimal rendering, the placeholder is left in the text.
\<close>

datatype error =
    ValueError string
  | TypeError string
  | IndexError string
  | KeyError string
  | InvalidProperty string "string list"
  | ColumnNotFoundError string
  | ShapeError

section \<open>Run-length grouping: \<^verbatim>\<open>pytracker/gaze/transforms.py\<close>, \<^verbatim>\<open>downsample\<close>\<close>

text \<open>
  \<^verbatim>\<open>np.diff(arr)\<close> on a one-dimensional array: the differences of neighbours,
  \<open>arr[i+1] - arr[i]\<close>. Index arrays are \<^verbatim>\<open>int64\<close>; the model uses unbounded integers.
\<close>

definition np_diff :: "int list \<Rightarrow> int list" where
  "np_diff arr = map (\<lambda>(a, b). b - a) (zip arr (tl arr))"

text \<open>\<^verbatim>\<open>np.where(mask)[0]\<close>: the positions at which a boolean array is true, ascending.\<close>

definition np_where :: "bool list \<Rightarrow> nat list" where
  "np_where msk = filter (\<lambda>i. msk ! i) [0..<length msk]"

text \<open>
  Python's \<^verbatim>\<open>a[st:end]\<close> for \<open>0 \<le> st\<close> and \<open>0 \<le> end\<close>: empty when \<open>end \<le> st\<close>, cut at the
  end of the list.
\<close>

definition slice :: "'a list \<Rightarrow> nat \<Rightarrow> nat \<Rightarrow> 'a list" where
  "slice xs st en = take (en - st) (drop st xs)"

text \<open>
  \<^verbatim>\<open>np.split(ary, indices)\<close> with a list of indices: the division points are
  \<open>[0] + indices + [len(ary)]\<close> and piece \<open>i\<close> is \<open>ary[div[i]:div[i+1]]\<close>.
\<close>

fun pieces :: "'a list \<Rightarrow> nat list \<Rightarrow> 'a list list" where
  "pieces ary (st # en # rest) = slice ary st en # pieces ary (en # rest)"
| "pieces ary _ = []"

definition np_split :: "'a list \<Rightarrow> nat list \<Rightarrow> 'a list list" where
  "np_split ary indices = pieces ary ([0] @ indices @ [length ary])"

text \<open>
  \<^verbatim>\<open>
  def downsample(arr, factor):
      return np.split(arr, np.where(np.diff(arr) != 1)[0] + 1)
  \<close>
\<close>

definition downsample :: "int list \<Rightarrow> int \<Rightarrow> int list list" where
  "downsample arr factor =
     np_split arr (map (\<lambda>i. i + 1) (np_where (map (\<lambda>d. d \<noteq> 1) (np_diff arr))))"

section \<open>Arrays\<close>

text \<open>
  A \<^verbatim>\<open>numpy\<close> array of at most two dimensions, with its shape: a zero-dimensional
  array (a scalar), a one-dimensional array, and a two-dimensional array given by its
  number of columns and its rows (each row has that many entries; the number of columns
  is kept apart because an array of shape \<open>(0, 2)\<close> has no row to read it from). An array
  of three or more dimensions only ever makes the functions raise, so just its shape is
  kept. Floating-point numbers are modelled by the reals: rounding, overflow
  and infinities are outside the model.
\<close>

datatype 'a ndarray =
    Scalar 'a
  | Vec "'a list"
  | Mat nat "'a list list"
  | Tensor "nat list"

text \<open>\<^verbatim>\<open>arr.shape\<close> and \<^verbatim>\<open>arr.ndim\<close>.\<close>

fun shape :: "'a ndarray \<Rightarrow> nat list" where
  "shape (Scalar _) = []"
| "shape (Vec xs) = [length xs]"
| "shape (Mat c rows) = [length rows, c]"
| "shape (Tensor sh) = sh"

definition ndim :: "'a ndarray \<Rightarrow> nat" where
  "ndim arr = length (shape arr)"

text \<open>The invariant of the representation: rows have the declared width, and a
  \<open>Tensor\<close> stands for three or more dimensions.\<close>

fun wf_array :: "'a ndarray \<Rightarrow> bool" where
  "wf_array (Mat c rows) = list_all (\<lambda>r. length r = c) rows"
| "wf_array (Tensor sh) = (3 \<le> length sh)"
| "wf_array _ = True"

text \<open>Python's \<^verbatim>\<open>str\<close> of a non-negative integer and of a shape tuple, for
  the messages that interpolate \<^verbatim>\<open>arr.ndim\<close> and \<^verbatim>\<open>arr.shape\<close>.\<close>

fun str_nat :: "nat \<Rightarrow> string" where
  "str_nat n =
     (if n < 10 then [''0123456789'' ! n]
      else str_nat (n div 10) @ [''0123456789'' ! (n mod 10)])"

fun join_comma :: "string list \<Rightarrow> string" where
  "join_comma [] = []"
| "join_comma [a] = a"
| "join_comma (a # b # rest) = a @ '', '' @ join_comma (b # rest)"

definition str_shape :: "nat list \<Rightarrow> string" where
  "str_shape sh =
     (if length sh = 1 then ''('' @ str_nat (hd sh) @ '',)''
      else ''('' @ join_comma (map str_nat sh) @ '')'')"

section \<open>Velocity estimation: \<^verbatim>\<open>pytracker/gaze/transforms.py\<close>, \<^verbatim>\<open>pos2vel\<close>\<close>

text \<open>
  \<^verbatim>\<open>v[st:en] = vals\<close> for \<open>st \<le> en \<le> len(v)\<close> and \<open>len(vals) = en - st\<close>, the only way
  \<^verbatim>\<open>pos2vel\<close> uses it (numpy raises on another length).
\<close>

definition set_slice :: "'a list \<Rightarrow> nat \<Rightarrow> nat \<Rightarrow> 'a list \<Rightarrow> 'a list" where
  "set_slice v st en vals = take st v @ vals @ drop en v"

text \<open>
  The arithmetic of \<^verbatim>\<open>pos2vel\<close> is elementwise. On a one-dimensional array an element
  is a number; on a two-dimensional array \<open>arr[i]\<close> is a row, and the operators work
  entry by entry. The operators are passed to the scheme, so that one definition serves
  both shapes.
\<close>

record 'a arith =
  osub :: "'a \<Rightarrow> 'a \<Rightarrow> 'a"
  oadd :: "'a \<Rightarrow> 'a \<Rightarrow> 'a"
  omul :: "'a \<Rightarrow> real \<Rightarrow> 'a"
  odiv :: "'a \<Rightarrow> real \<Rightarrow> 'a"

definition num_arith :: "real arith" where
  "num_arith = \<lparr> osub = (\<lambda>a b. a - b), oadd = (\<lambda>a b. a + b),
                 omul = (\<lambda>a c. a * c), odiv = (\<lambda>a c. a / c) \<rparr>"

definition row_arith :: "real list arith" where
  "row_arith = \<lparr> osub = (\<lambda>a b. map (\<lambda>(x, y). x - y) (zip a b)),
                 oadd = (\<lambda>a b. map (\<lambda>(x, y). x + y) (zip a b)),
                 omul = (\<lambda>a c. map (\<lambda>x. x * c) a),
                 odiv = (\<lambda>a c. map (\<lambda>x. x / c) a) \<rparr>"

text \<open>Two slices of equal length combined elementwise.\<close>

definition zip_with :: "('a \<Rightarrow> 'a \<Rightarrow> 'a) \<Rightarrow> 'a list \<Rightarrow> 'a list \<Rightarrow> 'a list" where
  "zip_with f xs ys = map (\<lambda>(x, y). f x y) (zip xs ys)"

text \<open>
  \<^verbatim>\<open>
  moving_avg = arr[4:N] + arr[3:N - 1] - arr[1:N - 3] - arr[0:N - 4]
  v[2:N - 2] = moving_avg * sampling_rate / 6
  v[1] = (arr[2] - arr[0]) * sampling_rate / 2
  v[N - 2] = (arr[N - 1] - arr[N - 3]) * sampling_rate / 2
  v[0] = (arr[1] - arr[0]) * sampling_rate / 2
  v[N - 1] = (arr[N - 1] - arr[N - 2]) * sampling_rate / 2
  \<close>
  The assignments are made in the source's order, on the zero array \<open>v\<close>.
\<close>

definition smooth :: "'a arith \<Rightarrow> 'a list \<Rightarrow> real \<Rightarrow> 'a list \<Rightarrow> 'a list" where
  "smooth A arr sampling_rate v =
     (let N = length arr;
          moving_avg =
            zip_with (osub A)
              (zip_with (osub A)
                 (zip_with (oadd A) (slice arr 4 N) (slice arr 3 (N - 1)))
                 (slice arr 1 (N - 3)))
              (slice arr 0 (N - 4));
          v1 = set_slice v 2 (N - 2) (map (\<lambda>m. odiv A (omul A m sampling_rate) 6) moving_avg);
          v2 = v1[1 := odiv A (omul A (osub A (arr ! 2) (arr ! 0)) sampling_rate) 2];
          v3 = v2[N - 2 := odiv A (omul A (osub A (arr ! (N - 1)) (arr ! (N - 3))) sampling_rate) 2];
          v4 = v3[0 := odiv A (omul A (osub A (arr ! 1) (arr ! 0)) sampling_rate) 2];
          v5 = v4[N - 1 := odiv A (omul A (osub A (arr ! (N - 1)) (arr ! (N - 2))) sampling_rate) 2]
      in v5)"

text \<open>\<^verbatim>\<open>v[1:N - 1] = (arr[2:N] - arr[0:N - 2]) * sampling_rate / 2\<close>\<close>

definition neighbors :: "'a arith \<Rightarrow> 'a list \<Rightarrow> real \<Rightarrow> 'a list \<Rightarrow> 'a list" where
  "neighbors A arr sampling_rate v =
     (let N = length arr
      in set_slice v 1 (N - 1)
           (map (\<lambda>m. odiv A (omul A m sampling_rate) 2)
              (zip_with (osub A) (slice arr 2 N) (slice arr 0 (N - 2)))))"

text \<open>\<^verbatim>\<open>v[1:N] = (arr[1:N] - arr[0:N - 1]) * sampling_rate\<close>\<close>

definition preceding :: "'a arith \<Rightarrow> 'a list \<Rightarrow> real \<Rightarrow> 'a list \<Rightarrow> 'a list" where
  "preceding A arr sampling_rate v =
     (let N = length arr
      in set_slice v 1 N
           (map (\<lambda>m. omul A m sampling_rate)
              (zip_with (osub A) (slice arr 1 N) (slice arr 0 (N - 1)))))"

text \<open>
  The Savitzky-Golay branch calls \<^verbatim>\<open>scipy.signal.savgol_filter(x, deriv=1, **kwargs)\<close>,
  a function of another package: it is the parameter \<open>savgol\<close>, from the keyword
  arguments and one channel to the filtered channel or the exception it raises. On a
  two-dimensional array the loop \<^verbatim>\<open>for channel_id in range(arr.shape[1])\<close> filters
  column after column and stops at the first exception.
\<close>

definition column :: "'a list list \<Rightarrow> nat \<Rightarrow> 'a list" where
  "column rows j = map (\<lambda>r. r ! j) rows"

definition set_column :: "'a list list \<Rightarrow> nat \<Rightarrow> 'a list \<Rightarrow> 'a list list" where
  "set_column rows j vals = map (\<lambda>(r, x). r[j := x]) (zip rows vals)"

fun savgol_channels ::
  "('k list \<Rightarrow> real list \<Rightarrow> error + real list) \<Rightarrow> 'k list \<Rightarrow> real list list \<Rightarrow>
   nat list \<Rightarrow> real list list \<Rightarrow> error + real list list" where
  "savgol_channels savgol kwargs arr [] v = Inr v"
| "savgol_channels savgol kwargs arr (channel_id # rest) v =
     (case savgol kwargs (column arr channel_id) of
        Inl e \<Rightarrow> Inl e
      | Inr filtered \<Rightarrow> savgol_channels savgol kwargs arr rest (set_column v channel_id filtered))"

text \<open>\<^verbatim>\<open>arr.shape[0]\<close>, read after the check that \<open>arr\<close> has one or two dimensions.\<close>

definition shape0 :: "'a ndarray \<Rightarrow> nat" where
  "shape0 arr = hd (shape arr)"

text \<open>
  \<^verbatim>\<open>pos2vel(arr, sampling_rate, method, **kwargs)\<close>. The checks come in the source's
  order: the sampling rate, the number of dimensions, the minimum length of each method,
  the keyword arguments; then \<open>v = np.zeros(arr.shape)\<close> and the branch of the method.
  The message of the dimension check is not an f-string in the source, so it is raised
  as written.
\<close>

definition pos2vel ::
  "('k list \<Rightarrow> real list \<Rightarrow> error + real list) \<Rightarrow> real ndarray \<Rightarrow> real \<Rightarrow> string \<Rightarrow>
   'k list \<Rightarrow> error + real ndarray" where
  \<open>pos2vel savgol arr sampling_rate method kwargs =
     (if sampling_rate \<le> 0 then Inl (ValueError ''sampling_rate needs to be above zero'')
      else if ndim arr \<notin> {1, 2}
        then Inl (ValueError ''arr needs to have 1 or 2 dimensions (are: {arr.ndim = })'')
      else if method = ''smooth'' \<and> shape0 arr < 6
        then Inl (ValueError ''arr has to have at least 6 elements for method "smooth"'')
      else if method = ''neighbors'' \<and> shape0 arr < 3
        then Inl (ValueError ''arr has to have at least 3 elements for method "neighbors"'')
      else if method = ''preceding'' \<and> shape0 arr < 2
        then Inl (ValueError ''arr has to have at least 2 elements for method "preceding"'')
      else if method \<noteq> ''savitzky_golay'' \<and> kwargs \<noteq> []
        then Inl (ValueError ''selected method doesn't support any additional kwargs'')
      else
        (case arr of
           Vec xs \<Rightarrow>
             (let v = replicate (length xs) 0 in
              if method = ''smooth'' then Inr (Vec (smooth num_arith xs sampling_rate v))
              else if method = ''neighbors'' then Inr (Vec (neighbors num_arith xs sampling_rate v))
              else if method = ''preceding'' then Inr (Vec (preceding num_arith xs sampling_rate v))
              else if method = ''savitzky_golay'' then
                (case savgol kwargs xs of
                   Inl e \<Rightarrow> Inl e
                 | Inr filtered \<Rightarrow> Inr (Vec (map (\<lambda>x. x * sampling_rate) filtered)))
              else Inl (ValueError
                (''Method needs to be in ['smooth', 'neighbors', 'preceding', 'savitzky_golay']''
                 @ '' (is: '' @ method @ '')'')))
         | Mat c rows \<Rightarrow>
             (let v = replicate (length rows) (replicate c 0) in
              if method = ''smooth'' then Inr (Mat c (smooth row_arith rows sampling_rate v))
              else if method = ''neighbors'' then Inr (Mat c (neighbors row_arith rows sampling_rate v))
              else if method = ''preceding'' then Inr (Mat c (preceding row_arith rows sampling_rate v))
              else if method = ''savitzky_golay'' then
                (case savgol_channels savgol kwargs rows [0..<c] v of
                   Inl e \<Rightarrow> Inl e
                 | Inr filtered \<Rightarrow> Inr (Mat c (map (map (\<lambda>x. x * sampling_rate)) filtered)))
              else Inl (ValueError
                (''Method needs to be in ['smooth', 'neighbors', 'preceding', 'savitzky_golay']''
                 @ '' (is: '' @ method @ '')'')))
         | _ \<Rightarrow> Inl (ValueError ''arr needs to have 1 or 2 dimensions (are: {arr.ndim = })'')))\<close>

text \<open>
  The smooth scheme as section 4.2 of the specification words it, for one channel: \<open>x\<close>
  and \<open>v\<close> give the position and the velocity at an index, \<open>N\<close> is the number of samples.
\<close>

definition smooth_formula :: "(nat \<Rightarrow> real) \<Rightarrow> (nat \<Rightarrow> real) \<Rightarrow> nat \<Rightarrow> real \<Rightarrow> bool" where
  "smooth_formula x v N r =
     ((\<forall>i. 2 \<le> i \<and> i \<le> N - 3 \<longrightarrow> v i = (x (i + 2) + x (i + 1) - x (i - 1) - x (i - 2)) * r / 6)
      \<and> v 1 = (x 2 - x 0) * r / 2
      \<and> v (N - 2) = (x (N - 1) - x (N - 3)) * r / 2
      \<and> v 0 = (x 1 - x 0) * r / 2
      \<and> v (N - 1) = (x (N - 1) - x (N - 2)) * r / 2)"

section \<open>Argument checks: \<^verbatim>\<open>utils/checks.py\<close>\<close>

text \<open>
  The screen arguments of \<^verbatim>\<open>pix2deg\<close> are typed
  \<^verbatim>\<open>float | list[float] | tuple[float, float] | np.ndarray\<close>: a number, which Python
  cannot iterate, or a sequence of numbers.
\<close>

datatype dims = Num real | Seq "real list"

text \<open>
  \<^verbatim>\<open>
  def check_no_zeros(variable, name='variable'):
      error_message = f'{name} must not be zero'
      try:
          _ = iter(variable)
      except TypeError as exception:
          if variable == 0:
              raise ValueError(error_message) from exception
      else:
          error_message = 'each component in ' + error_message
          for variable_component in variable:
              if variable_component == 0:
                  raise ValueError(error_message)
  \<close>
  The result is the exception raised, if any.
\<close>

fun check_no_zeros :: "dims \<Rightarrow> string \<Rightarrow> error option" where
  "check_no_zeros (Num variable) name =
     (if variable = 0 then Some (ValueError (name @ '' must not be zero'')) else None)"
| "check_no_zeros (Seq variable) name =
     (if list_ex (\<lambda>variable_component. variable_component = 0) variable
      then Some (ValueError (''each component in '' @ name @ '' must not be zero''))
      else None)"

section \<open>Pixel to degree conversion: \<^verbatim>\<open>pytracker/gaze/transforms.py\<close>, \<^verbatim>\<open>pix2deg\<close>\<close>

text \<open>
  \<^verbatim>\<open>np.array(screen_px)\<close>: a number becomes a zero-dimensional array, a sequence a
  one-dimensional one.
\<close>

fun np_array :: "dims \<Rightarrow> real ndarray" where
  "np_array (Num x) = Scalar x"
| "np_array (Seq xs) = Vec xs"

text \<open>
  Broadcasting of a binary operator, as numpy does it for the shapes that occur here:
  the right operand is built from the screen vectors and has at most one dimension. Two
  lengths are compatible when they are equal or one of them is 1; the operand of length 1
  is then repeated. Incompatible lengths raise numpy's \<^verbatim>\<open>ValueError\<close> (its message also
  lists the two shapes, which the model leaves out).
\<close>

definition bc_ok :: "nat \<Rightarrow> nat \<Rightarrow> bool" where
  "bc_ok m n = (m = n \<or> m = 1 \<or> n = 1)"

definition bc_len :: "nat \<Rightarrow> nat \<Rightarrow> nat" where
  "bc_len m n = (if m = 1 then n else m)"

definition bc_row :: "(real \<Rightarrow> real \<Rightarrow> real) \<Rightarrow> real list \<Rightarrow> real list \<Rightarrow> real list" where
  "bc_row f xs ys =
     (if length xs = length ys then map (\<lambda>(x, y). f x y) (zip xs ys)
      else if length xs = 1 then map (\<lambda>y. f (hd xs) y) ys
      else map (\<lambda>x. f x (hd ys)) xs)"

definition broadcast_error :: error where
  "broadcast_error = ValueError ''operands could not be broadcast together''"

fun broadcast ::
  "(real \<Rightarrow> real \<Rightarrow> real) \<Rightarrow> real ndarray \<Rightarrow> real ndarray \<Rightarrow> error + real ndarray" where
  "broadcast f (Scalar a) (Scalar b) = Inr (Scalar (f a b))"
| "broadcast f (Scalar a) (Vec ys) = Inr (Vec (map (\<lambda>y. f a y) ys))"
| "broadcast f (Vec xs) (Scalar b) = Inr (Vec (map (\<lambda>x. f x b) xs))"
| "broadcast f (Vec xs) (Vec ys) =
     (if bc_ok (length xs) (length ys) then Inr (Vec (bc_row f xs ys)) else Inl broadcast_error)"
| "broadcast f (Mat c rows) (Scalar b) = Inr (Mat c (map (map (\<lambda>x. f x b)) rows))"
| "broadcast f (Mat c rows) (Vec ys) =
     (if bc_ok c (length ys)
      then Inr (Mat (bc_len c (length ys)) (map (\<lambda>r. bc_row f r ys) rows))
      else Inl broadcast_error)"
| "broadcast f a b = Inl broadcast_error"

text \<open>
  \<^verbatim>\<open>np.arctan2(y, x)\<close> is the C library's \<^verbatim>\<open>atan2\<close>: on the reals, the angle of the
  point \<open>(x, y)\<close> in the interval from \<open>-\<pi>\<close> (excluded) to \<open>\<pi>\<close>, and 0 at the origin.
\<close>

definition arctan2 :: "real \<Rightarrow> real \<Rightarrow> real" where
  "arctan2 y x =
     (if 0 < x then arctan (y / x)
      else if x < 0 \<and> 0 \<le> y then arctan (y / x) + pi
      else if x < 0 \<and> y < 0 then arctan (y / x) - pi
      else if 0 < y then pi / 2
      else if y < 0 then - pi / 2
      else 0)"

text \<open>\<^verbatim>\<open>np.tile(screen_px, 2)\<close> on a one-dimensional array.\<close>

definition np_tile2 :: "real ndarray \<Rightarrow> real ndarray" where
  "np_tile2 a = (case a of Vec xs \<Rightarrow> Vec (xs @ xs) | _ \<Rightarrow> a)"

text \<open>\<^verbatim>\<open>arr.shape[-1]\<close>, read only where \<^verbatim>\<open>arr.ndim != 0\<close>.\<close>

definition last_dim :: "'a ndarray \<Rightarrow> nat" where
  "last_dim arr = last (shape arr)"

text \<open>
  \<^verbatim>\<open>pix2deg(arr, screen_px, screen_cm, distance_cm, origin)\<close>, check by check in the
  source's order. The second call of \<^verbatim>\<open>check_no_zeros\<close> passes the name
  \<^verbatim>\<open>'screen_px'\<close> for \<^verbatim>\<open>screen_cm\<close>, as the source does. \<open>arr\<close> is \<open>None\<close> or an array.
\<close>

definition pix2deg ::
  "real ndarray option \<Rightarrow> dims \<Rightarrow> dims \<Rightarrow> real \<Rightarrow> string \<Rightarrow> error + real ndarray" where
  "pix2deg arr_arg screen_px_arg screen_cm_arg distance_cm origin =
     (case arr_arg of
        None \<Rightarrow> Inl (TypeError ''arr must not be None'')
      | Some arr \<Rightarrow>
     (case check_no_zeros screen_px_arg ''screen_px'' of Some e \<Rightarrow> Inl e | None \<Rightarrow>
     (case check_no_zeros screen_cm_arg ''screen_px'' of Some e \<Rightarrow> Inl e | None \<Rightarrow>
     (case check_no_zeros (Num distance_cm) ''distance_cm'' of Some e \<Rightarrow> Inl e | None \<Rightarrow>
     (let screen_px = np_array screen_px_arg;
          screen_cm = np_array screen_cm_arg
      in
      if ndim arr \<notin> {0, 1, 2}
        then Inl (ValueError (''Number of dimensions of arr must be either 0, 1 or 2''
                              @ '' (arr.ndim: '' @ str_nat (ndim arr) @ '')''))
      else if ndim arr = 2 \<and> last_dim arr \<notin> {1, 2, 4}
        then Inl (ValueError (''Last coord dimension must have length 1, 2 or 4.''
                              @ '' (arr.shape: '' @ str_shape (shape arr) @ '')''))
      else if ndim arr \<in> {0, 1} \<and> ndim screen_px \<noteq> 0 \<and> shape screen_px \<noteq> [1]
        then Inl (ValueError ''arr is 1-dimensional, but screen_px is not'')
      else if ndim arr \<in> {0, 1} \<and> ndim screen_cm \<noteq> 0 \<and> shape screen_cm \<noteq> [1]
        then Inl (ValueError ''arr is 1-dimensional, but screen_cm is not'')
      else if ndim arr \<noteq> 0 \<and> last_dim arr = 2 \<and> shape screen_px \<noteq> [2]
        then Inl (ValueError ''arr is 2-dimensional, but screen_px is not'')
      else if ndim arr \<noteq> 0 \<and> last_dim arr = 2 \<and> shape screen_cm \<noteq> [2]
        then Inl (ValueError ''arr is 2-dimensional, but screen_cm is not'')
      else if ndim arr \<noteq> 0 \<and> last_dim arr = 4 \<and> shape screen_px \<noteq> [2]
        then Inl (ValueError ''arr is 4-dimensional, but screen_px is not 2-dimensional'')
      else if ndim arr \<noteq> 0 \<and> last_dim arr = 4 \<and> shape screen_cm \<noteq> [2]
        then Inl (ValueError ''arr is 4-dimensional, but screen_cm is not 2-dimensional'')
      else
        (let tiled = (ndim arr \<noteq> 0 \<and> last_dim arr = 4);
             screen_px = (if tiled then np_tile2 screen_px else screen_px);
             screen_cm = (if tiled then np_tile2 screen_cm else screen_cm)
         in
         case broadcast (\<lambda>p c. distance_cm * (p / c)) screen_px screen_cm of
           Inl e \<Rightarrow> Inl e
         | Inr distance_px \<Rightarrow>
             if origin = ''lower left'' then
               (case broadcast (\<lambda>a p. a - (p - 1) / 2) arr screen_px of
                  Inl e \<Rightarrow> Inl e
                | Inr shifted \<Rightarrow>
                    broadcast (\<lambda>a d. arctan2 a d * 180 / pi) shifted distance_px)
             else if origin \<noteq> ''center'' then
               Inl (ValueError (''origin '' @ origin @ '' is not supported.''))
             else broadcast (\<lambda>a d. arctan2 a d * 180 / pi) arr distance_px))))))"

text \<open>
  The conversion of one coordinate as section 4.1 of the specification words it, with the
  source's spelling \<^verbatim>\<open>'lower left'\<close> of the origin: the distance in pixels, the
  recentring, the angle in degrees.
\<close>

definition pix2deg_formula :: "real \<Rightarrow> real \<Rightarrow> real \<Rightarrow> real \<Rightarrow> string \<Rightarrow> real" where
  "pix2deg_formula coord screen_px screen_cm distance_cm origin =
     (let distance_px = distance_cm * (screen_px / screen_cm);
          coord' = (if origin = ''lower left'' then coord - (screen_px - 1) / 2 else coord)
      in arctan2 coord' distance_px * 180 / pi)"

text \<open>
  \<^verbatim>\<open>check_shapes_positions_velocities(positions, velocities)\<close>: both arrays must have
  the shape \<open>(N, 2)\<close>, and the same shape.
\<close>

definition check_shapes_positions_velocities :: "'a ndarray \<Rightarrow> 'a ndarray \<Rightarrow> error option" where
  "check_shapes_positions_velocities positions velocities =
     (if ndim positions \<noteq> 2 \<or> shape positions ! 1 \<noteq> 2
        then Some (ValueError (''positions must have shape (N, 2) but have shape ''
                               @ str_shape (shape positions)))
      else if ndim velocities \<noteq> 2 \<or> shape velocities ! 1 \<noteq> 2
        then Some (ValueError (''velocities must have shape (N, 2) but have shape ''
                               @ str_shape (shape velocities)))
      else if shape positions \<noteq> shape velocities
        then Some (ValueError (''shape of positions '' @ str_shape (shape positions)
                               @ '' does not match shape of velocities ''
                               @ str_shape (shape velocities)))
      else None)"

text \<open>
  \<^verbatim>\<open>check_is_length_matching(**kwargs)\<close>, called with two keyword arguments (so that
  \<^verbatim>\<open>check_two_kwargs\<close> passes): the names and the lengths of the two sequences.
\<close>

definition check_is_length_matching :: "string \<Rightarrow> nat \<Rightarrow> string \<Rightarrow> nat \<Rightarrow> error option" where
  \<open>check_is_length_matching key_1 len_1 key_2 len_2 =
     (if \<not> len_1 = len_2
        then Some (ValueError (''The sequences "'' @ key_1 @ ''" and "'' @ key_2
                               @ ''" must be of equal length.''))
      else None)\<close>

section \<open>Event detection: \<^verbatim>\<open>pytracker/events/detection/engbert.py\<close>\<close>

text \<open>
  A velocity sample can be missing: \<^verbatim>\<open>nan\<close>. In this module a floating-point value is a
  real number or \<open>None\<close>, which stands for \<^verbatim>\<open>nan\<close>. Arithmetic hands \<^verbatim>\<open>nan\<close> on, and
  every comparison with \<^verbatim>\<open>nan\<close> is false. Between numbers the arithmetic is that of the
  reals: the rounding of Float64 products, differences, means and roots is outside the
  model.
\<close>

type_synonym npfloat = "real option"

definition isnan :: "npfloat \<Rightarrow> bool" where
  "isnan a = (a = None)"

definition flift2 :: "(real \<Rightarrow> real \<Rightarrow> real) \<Rightarrow> npfloat \<Rightarrow> npfloat \<Rightarrow> npfloat" where
  "flift2 f a b =
     (case a of None \<Rightarrow> None | Some x \<Rightarrow> (case b of None \<Rightarrow> None | Some y \<Rightarrow> Some (f x y)))"

definition fsub :: "npfloat \<Rightarrow> npfloat \<Rightarrow> npfloat" where
  "fsub = flift2 (\<lambda>x y. x - y)"

definition fmul :: "npfloat \<Rightarrow> npfloat \<Rightarrow> npfloat" where
  "fmul = flift2 (\<lambda>x y. x * y)"

definition fpow2 :: "npfloat \<Rightarrow> npfloat" where
  "fpow2 a = map_option (\<lambda>x. x ^ 2) a"

definition fabs :: "npfloat \<Rightarrow> npfloat" where
  "fabs a = map_option abs a"

text \<open>\<^verbatim>\<open>np.sqrt\<close>: \<^verbatim>\<open>nan\<close> on a negative number.\<close>

definition fsqrt :: "npfloat \<Rightarrow> npfloat" where
  "fsqrt a = (case a of None \<Rightarrow> None | Some x \<Rightarrow> if x < 0 then None else Some (sqrt x))"

text \<open>\<^verbatim>\<open>a < b\<close> for a floating-point \<open>a\<close> and a number \<open>b\<close>.\<close>

definition fless :: "npfloat \<Rightarrow> real \<Rightarrow> bool" where
  "fless a b = (case a of None \<Rightarrow> False | Some x \<Rightarrow> x < b)"

subsection \<open>\<^verbatim>\<open>compute_threshold\<close>\<close>

text \<open>
  The \<^verbatim>\<open>nan\<close>-ignoring statistics of numpy on a one-dimensional array. The entries
  that are not \<^verbatim>\<open>nan\<close> are kept; on none left the result is \<^verbatim>\<open>nan\<close> (numpy also warns).
  The median is the middle entry of the sorted values, or the mean of the two middle
  entries; the standard deviation is the root of the mean squared distance to the mean.
\<close>

definition nan_values :: "npfloat list \<Rightarrow> real list" where
  "nan_values xs = map the (filter (\<lambda>x. \<not> isnan x) xs)"

definition median :: "real list \<Rightarrow> npfloat" where
  "median ys =
     (let srt = sort ys; n = length ys
      in if n = 0 then None
         else if odd n then Some (srt ! (n div 2))
         else Some ((srt ! (n div 2 - 1) + srt ! (n div 2)) / 2))"

definition nanmedian :: "npfloat list \<Rightarrow> npfloat" where
  "nanmedian xs = median (nan_values xs)"

definition nanmean :: "npfloat list \<Rightarrow> npfloat" where
  "nanmean xs =
     (let ys = nan_values xs
      in if ys = [] then None else Some (sum_list ys / real (length ys)))"

definition nanstd :: "npfloat list \<Rightarrow> npfloat" where
  "nanstd xs = fsqrt (nanmean (map (\<lambda>x. fpow2 (fabs (fsub x (nanmean xs)))) xs))"

text \<open>
  \<^verbatim>\<open>compute_threshold(arr, method)\<close> on a two-dimensional array, given by its width and
  its rows. The method is dispatched first, so an unknown method raises whatever the
  array; a known method reads the columns \<^verbatim>\<open>arr[:, 0]\<close> and \<^verbatim>\<open>arr[:, 1]\<close>, which is
  numpy's \<^verbatim>\<open>IndexError\<close> on fewer than two columns: the first column that is missing has
  the index \<open>c\<close>, the number of columns.
\<close>

definition threshold_of :: "string \<Rightarrow> npfloat list \<Rightarrow> npfloat" where
  "threshold_of method col =
     (if method = ''std'' then nanstd col
      else if method = ''mad'' then nanmedian (map (\<lambda>x. fabs (fsub x (nanmedian col))) col)
      else if method = ''engbert2003''
        then fsqrt (fsub (nanmedian (map fpow2 col)) (fpow2 (nanmedian col)))
      else fsqrt (nanmedian (map (\<lambda>x. fpow2 (fsub x (nanmedian col))) col)))"

definition compute_threshold :: "nat \<Rightarrow> npfloat list list \<Rightarrow> string \<Rightarrow> error + npfloat list" where
  \<open>compute_threshold c arr method =
     (if method \<in> {''std'', ''mad'', ''engbert2003'', ''engbert2015''} then
        (if c < 2 then Inl (IndexError (''index '' @ str_nat c @ '' is out of bounds for axis 1''
                                        @ '' with size '' @ str_nat c))
         else Inr [threshold_of method (column arr 0), threshold_of method (column arr 1)])
      else Inl (ValueError (''Method "'' @ method @ ''" not implemented. Valid methods: ''
                            @ ''['std', 'mad', 'engbert2003', 'engbert2015']'')))\<close>

subsection \<open>\<^verbatim>\<open>microsaccades\<close>\<close>

text \<open>
  The threshold argument is a method name or a sized sequence of values
  (\<^verbatim>\<open>np.ndarray | tuple[float] | str\<close>).
\<close>

datatype threshold_arg = ThrMethod string | ThrValues "npfloat list"

text \<open>
  \<^verbatim>\<open>
  if isinstance(threshold, str):
      threshold = compute_threshold(velocities, method=threshold)
  else:
      if isinstance(threshold, Sized) and len(threshold) != 2:
          raise ValueError('threshold must be either string or two-dimensional')
      threshold = np.array(threshold)
  \<close>
\<close>

definition resolve_threshold :: "npfloat list list \<Rightarrow> threshold_arg \<Rightarrow> error + npfloat list" where
  "resolve_threshold velocities threshold =
     (case threshold of
        ThrMethod method \<Rightarrow> compute_threshold 2 velocities method
      | ThrValues vals \<Rightarrow>
          if length vals \<noteq> 2
            then Inl (ValueError ''threshold must be either string or two-dimensional'')
          else Inr vals)"

text \<open>
  \<^verbatim>\<open>np.greater(np.sum(np.power(velocities / radius, 2), axis=1), 1)\<close> for one row. The
  division follows IEEE arithmetic, as numpy does: a non-zero number over zero is
  infinite, zero over zero is \<^verbatim>\<open>nan\<close>; a sum with \<^verbatim>\<open>nan\<close> is \<^verbatim>\<open>nan\<close>, a sum of squares
  with an infinite term is infinite; infinity is greater than 1 and \<^verbatim>\<open>nan\<close> is not.
\<close>

datatype sqval = SqNaN | SqInf | SqFin real

fun div_pow2 :: "npfloat \<Rightarrow> npfloat \<Rightarrow> sqval" where
  "div_pow2 (Some v) (Some r) =
     (if r = 0 then (if v = 0 then SqNaN else SqInf) else SqFin ((v / r) ^ 2))"
| "div_pow2 _ _ = SqNaN"

fun sq_add :: "sqval \<Rightarrow> sqval \<Rightarrow> sqval" where
  "sq_add SqNaN _ = SqNaN"
| "sq_add _ SqNaN = SqNaN"
| "sq_add SqInf _ = SqInf"
| "sq_add _ SqInf = SqInf"
| "sq_add (SqFin a) (SqFin b) = SqFin (a + b)"

fun greater_1 :: "sqval \<Rightarrow> bool" where
  "greater_1 (SqFin s) = (1 < s)"
| "greater_1 SqInf = True"
| "greater_1 SqNaN = False"

definition outside_ellipse :: "npfloat list \<Rightarrow> npfloat list \<Rightarrow> bool" where
  "outside_ellipse radius v =
     greater_1 (foldl sq_add (SqFin 0) (map (\<lambda>(x, r). div_pow2 x r) (zip v radius)))"

text \<open>
  Modelled from the spec: \<^verbatim>\<open>pytracker.gaze.transforms.consecutive\<close>, which
  \<^verbatim>\<open>engbert.py\<close> imports, is not defined in \<^verbatim>\<open>transforms.py\<close>. Section 4.5 describes it as
  the partition of an index sequence into maximal runs of indices that differ by exactly
  1; that is what the body of \<open>downsample\<close> computes, and the model uses that body.
\<close>

definition consecutive :: "int list \<Rightarrow> int list list" where
  "consecutive arr =
     np_split arr (map (\<lambda>i. i + 1) (np_where (map (\<lambda>d. d \<noteq> 1) (np_diff arr))))"

text \<open>
  Modelled from the spec: \<^verbatim>\<open>pytracker.utils.filters.filter_candidates_remove_nans\<close> is
  not among the sources. Section 4.4, step 5: within each run the leading and trailing
  indices whose velocity is missing are trimmed; a run may become empty.
\<close>

definition filter_candidates_remove_nans ::
  "int list list \<Rightarrow> npfloat list list \<Rightarrow> int list list" where
  "filter_candidates_remove_nans candidates values =
     (let missing = (\<lambda>i. list_ex isnan (values ! nat i))
      in map (\<lambda>candidate. rev (dropWhile missing (rev (dropWhile missing candidate))))
           candidates)"

text \<open>
  Modelled from the spec: the class \<^verbatim>\<open>pytracker.events.events.EventDataFrame\<close> is not
  among the sources. Sections 3 and 4.4: an event has a name, an onset and an offset, and
  the detector emits one event per surviving run, in order.
\<close>

record event =
  name :: string
  onset :: int
  offset :: int

definition EventDataFrame :: "string \<Rightarrow> int list \<Rightarrow> int list \<Rightarrow> event list" where
  "EventDataFrame nm onsets offsets =
     map (\<lambda>(on, off). \<lparr> name = nm, onset = on, offset = off \<rparr>) (zip onsets offsets)"

text \<open>
  \<^verbatim>\<open>microsaccades(positions, velocities, timesteps, minimum_duration, threshold,
  threshold_factor, minimum_threshold, include_nan)\<close>, statement by statement. After the
  shape check \<open>velocities\<close> is an \<open>(N, 2)\<close> array. Time steps and durations are integers.
\<close>

definition microsaccades ::
  "npfloat ndarray \<Rightarrow> npfloat ndarray \<Rightarrow> int list option \<Rightarrow> int \<Rightarrow> threshold_arg \<Rightarrow>
   real \<Rightarrow> real \<Rightarrow> bool \<Rightarrow> error + event list" where
  "microsaccades positions velocities timesteps_arg minimum_duration threshold_arg
       threshold_factor minimum_threshold include_nan =
     (case check_shapes_positions_velocities positions velocities of
        Some e \<Rightarrow> Inl e
      | None \<Rightarrow>
     (case velocities of
        Mat c rows \<Rightarrow>
          (let timesteps = (case timesteps_arg of
                              None \<Rightarrow> map int [0..<length rows]
                            | Some ts \<Rightarrow> ts)
           in
           case check_is_length_matching ''velocities'' (length rows)
                  ''timesteps'' (length timesteps) of
             Some e \<Rightarrow> Inl e
           | None \<Rightarrow>
          (case resolve_threshold rows threshold_arg of
             Inl e \<Rightarrow> Inl e
           | Inr threshold \<Rightarrow>
               if list_ex (\<lambda>t. fless t minimum_threshold) threshold
                 then Inl (ValueError
                   (''threshold does not provide enough variance as required by min_threshold''
                    @ '' ({threshold} < {minimum_threshold})''))
               else
                 (let radius = map (\<lambda>t. fmul t (Some threshold_factor)) threshold;
                      candidate_mask = map (outside_ellipse radius) rows;
                      candidate_mask =
                        (if include_nan
                         then map (\<lambda>(m, v). m \<or> list_ex isnan v) (zip candidate_mask rows)
                         else candidate_mask);
                      candidate_indices = map int (np_where candidate_mask);
                      candidates = consecutive candidate_indices;
                      candidates =
                        (if include_nan then filter_candidates_remove_nans candidates rows
                         else candidates);
                      candidates =
                        filter (\<lambda>candidate. length candidate > 0
                                  \<and> timesteps ! nat (last candidate) - timesteps ! nat (hd candidate)
                                      \<ge> minimum_duration)
                          candidates;
                      onsets = map (\<lambda>candidate_indices. timesteps ! nat (hd candidate_indices))
                                 candidates;
                      offsets = map (\<lambda>candidate_indices. timesteps ! nat (last candidate_indices))
                                  candidates
                  in Inr (EventDataFrame ''saccade'' onsets offsets))))
      | _ \<Rightarrow> Inl (ValueError (''velocities must have shape (N, 2) but have shape ''
                               @ str_shape (shape velocities)))))"

section \<open>Data frames and expressions\<close>

text \<open>
  The event modules work on \<^verbatim>\<open>polars\<close> data frames and build \<^verbatim>\<open>polars\<close> expressions. This
  section models the part of \<^verbatim>\<open>polars\<close> they use. A cell is null, an integer, a float (a
  real number in the model), a string, or a list of cells (the result of an expression
  that is not an aggregation, inside \<^verbatim>\<open>agg\<close>). A row gives its cells by column name, in
  the order of the columns; a frame is its column names and its rows (\<open>records\<close>).
\<close>

datatype val = Null | I int | F real | S string | L "val list"

type_synonym row = "(string \<times> val) list"

record frame =
  columns :: "string list"
  records :: "row list"





text \<open>
  The expressions the properties build: \<^verbatim>\<open>pl.col(name)\<close>, \<^verbatim>\<open>e.pow(n)\<close>, \<^verbatim>\<open>a + b\<close>,
  \<^verbatim>\<open>a - b\<close>, \<^verbatim>\<open>e.sqrt()\<close>, \<^verbatim>\<open>e.max()\<close>, \<^verbatim>\<open>e.min()\<close>, \<^verbatim>\<open>e.head(n)\<close>,
  \<^verbatim>\<open>e.reverse()\<close> and \<^verbatim>\<open>e.alias(name)\<close>.
\<close>

datatype expr =
    Col string
  | Pow expr nat
  | Add expr expr
  | Sub expr expr
  | Sqrt expr
  | AggMax expr
  | AggMin expr
  | Head expr nat
  | Reverse expr
  | Alias expr string







section \<open>Event properties: \<^verbatim>\<open>pytracker/events/event_properties.py\<close>\<close>

text \<open>
  The column arguments are Python values; the checks look at their type and length.
\<close>

datatype pyval =
    PyNone
  | PyBool bool
  | PyInt int
  | PyFloat real
  | PyStr string
  | PyTuple "pyval list"
  | PyList "pyval list"

text \<open>\<^verbatim>\<open>type(v).__name__\<close>\<close>

fun type_name :: "pyval \<Rightarrow> string" where
  "type_name PyNone = ''NoneType''"
| "type_name (PyBool _) = ''bool''"
| "type_name (PyInt _) = ''int''"
| "type_name (PyFloat _) = ''float''"
| "type_name (PyStr _) = ''str''"
| "type_name (PyTuple _) = ''tuple''"
| "type_name (PyList _) = ''list''"

fun is_str :: "pyval \<Rightarrow> bool" where
  "is_str (PyStr _) = True"
| "is_str _ = False"

text \<open>
  \<^verbatim>\<open>
  def _check_position_columns(position_columns):
      if not isinstance(position_columns, tuple):
          raise TypeError('position_columns must be of type tuple[str, str]'
                          f' but is of type {type(position_columns).__name__}')
      if len(position_columns) != 2:
          raise TypeError('position_columns must be of length of 2'
                          f' but is of length {len(position_columns)}')
      if not all(isinstance(velocity_column, str) for velocity_column in position_columns):
          raise TypeError('position_columns must be of type tuple[str, str] but is '
                          f'tuple[{type(position_columns[0]).__name__}, '
                          f'{type(position_columns[1]).__name__}]')
  \<close>
  \<^verbatim>\<open>_check_velocity_columns\<close> is the same text with \<^verbatim>\<open>velocity_columns\<close>; the model gives
  the argument's name to one definition.
\<close>

definition check_columns :: "string \<Rightarrow> pyval \<Rightarrow> error option" where
  "check_columns arg_name cols =
     (case cols of
        PyTuple items \<Rightarrow>
          if length items \<noteq> 2
            then Some (TypeError (arg_name @ '' must be of length of 2 but is of length ''
                                   @ str_nat (length items)))
          else if \<not> list_all is_str items
            then Some (TypeError (arg_name @ '' must be of type tuple[str, str] but is ''
                                   @ ''tuple['' @ type_name (items ! 0) @ '', ''
                                   @ type_name (items ! 1) @ '']''))
          else None
      | _ \<Rightarrow> Some (TypeError (arg_name @ '' must be of type tuple[str, str]''
                               @ '' but is of type '' @ type_name cols)))"

definition check_position_columns :: "pyval \<Rightarrow> error option" where
  "check_position_columns position_columns = check_columns ''position_columns'' position_columns"

definition check_velocity_columns :: "pyval \<Rightarrow> error option" where
  "check_velocity_columns velocity_columns = check_columns ''velocity_columns'' velocity_columns"

text \<open>\<^verbatim>\<open>pl.col(columns[i])\<close>, read after the check: the item is a string.\<close>

definition col_of :: "pyval \<Rightarrow> nat \<Rightarrow> expr" where
  "col_of cols i =
     (case cols of
        PyTuple items \<Rightarrow> (case items ! i of PyStr c \<Rightarrow> Col c | _ \<Rightarrow> Col [])
      | _ \<Rightarrow> Col [])"


definition peak_velocity :: "pyval \<Rightarrow> error + expr" where
  "peak_velocity velocity_columns =
     (case check_velocity_columns velocity_columns of
        Some e \<Rightarrow> Inl e
      | None \<Rightarrow>
          (let x_velocity = col_of velocity_columns 0;
               y_velocity = col_of velocity_columns 1
           in Inr (AggMax (Sqrt (Add (Pow x_velocity 2) (Pow y_velocity 2))))))"

definition dispersion :: "pyval \<Rightarrow> error + expr" where
  "dispersion position_columns =
     (case check_position_columns position_columns of
        Some e \<Rightarrow> Inl e
      | None \<Rightarrow>
          (let x_position = col_of position_columns 0;
               y_position = col_of position_columns 1
           in Inr (Sub (Add (Sub (AggMax x_position) (AggMin x_position)) (AggMax y_position))
                       (AggMin y_position))))"

definition amplitude :: "pyval \<Rightarrow> error + expr" where
  "amplitude position_columns =
     (case check_position_columns position_columns of
        Some e \<Rightarrow> Inl e
      | None \<Rightarrow>
          (let x_position = col_of position_columns 0;
               y_position = col_of position_columns 1
           in Inr (Sqrt (Add (Pow (Sub (AggMax x_position) (AggMin x_position)) 2)
                             (Pow (Sub (AggMax y_position) (AggMin y_position)) 2)))))"

definition disposition :: "pyval \<Rightarrow> error + expr" where
  "disposition position_columns =
     (case check_position_columns position_columns of
        Some e \<Rightarrow> Inl e
      | None \<Rightarrow>
          (let x_position = col_of position_columns 0;
               y_position = col_of position_columns 1
           in Inr (Sqrt (Add (Pow (Sub (Head x_position 1) (Head (Reverse x_position) 1)) 2)
                             (Pow (Sub (Head y_position 1) (Head (Reverse y_position) 1)) 2)))))"

text \<open>The four properties that take a column argument, each with the name of its argument.\<close>

definition column_properties :: "((pyval \<Rightarrow> error + expr) \<times> string) list" where
  "column_properties =
     [(peak_velocity, ''velocity_columns''), (dispersion, ''position_columns''),
      (amplitude, ''position_columns''), (disposition, ''position_columns'')]"

section \<open>Joining, filtering and grouping frames\<close>







definition first_occurrences :: "'a list \<Rightarrow> 'a list" where
  "first_occurrences xs = rev (remdups (rev xs))"










section \<open>Gaze frames: \<^verbatim>\<open>pytracker/gaze/gaze_dataframe.py\<close>\<close>

definition valid_position_columns :: "string list" where
  "valid_position_columns =
     [''x_pos'', ''y_pos'', ''x_left_pos'', ''y_left_pos'', ''x_right_pos'', ''y_right_pos'']"

definition valid_velocity_columns :: "string list" where
  "valid_velocity_columns =
     [''x_vel'', ''y_vel'', ''x_left_vel'', ''y_left_vel'', ''x_right_vel'', ''y_right_vel'']"

text \<open>
  \<^verbatim>\<open>list(set(self._valid_velocity_columns) & set(self.frame.columns))\<close>: the valid names
  the frame has, in the iteration order of a Python set of strings. The language does not
  fix that order; it is the parameter \<open>set_order\<close>, applied to the common names.
\<close>

definition velocity_columns :: "(string list \<Rightarrow> string list) \<Rightarrow> frame \<Rightarrow> string list" where
  "velocity_columns set_order fr =
     set_order (filter (\<lambda>c. c \<in> set (columns fr)) valid_velocity_columns)"

definition position_columns :: "(string list \<Rightarrow> string list) \<Rightarrow> frame \<Rightarrow> string list" where
  "position_columns set_order fr =
     set_order (filter (\<lambda>c. c \<in> set (columns fr)) valid_position_columns)"

section \<open>Event processing: \<^verbatim>\<open>pytracker/events/event_processing.py\<close>\<close>

text \<open>
  The registry \<^verbatim>\<open>EVENT_PROPERTIES\<close>, filled by the decorator in the order of the
  definitions: the name of each property, the names of its arguments
  (\<^verbatim>\<open>inspect.getfullargspec(f).args\<close>), and the call with keyword arguments, an argument
  left out taking its default. Looking up a name that is not registered is a \<^verbatim>\<open>KeyError\<close>.
\<close>

definition EVENT_PROPERTIES :: "string list" where
  "EVENT_PROPERTIES = [''duration'', ''peak_velocity'', ''dispersion'', ''amplitude'', ''disposition'']"




text \<open>A string or a list of strings, for the arguments typed \<^verbatim>\<open>str | list[str]\<close>.\<close>

datatype str_or_list = Str string | StrList "string list"

definition as_list :: "str_or_list \<Rightarrow> string list" where
  "as_list a = (case a of Str s \<Rightarrow> [s] | StrList l \<Rightarrow> l)"

text \<open>
  \<^verbatim>\<open>EventGazeProcessor.__init__(event_properties)\<close>: the first name that is not
  registered raises \<^verbatim>\<open>InvalidProperty\<close>; otherwise the processor keeps the list of names.
\<close>

definition EventGazeProcessor :: "str_or_list \<Rightarrow> error + string list" where
  "EventGazeProcessor event_properties_arg =
     (let event_properties = as_list event_properties_arg
      in case filter (\<lambda>property_name. property_name \<notin> set EVENT_PROPERTIES) event_properties of
           property_name # _ \<Rightarrow> Inl (InvalidProperty property_name EVENT_PROPERTIES)
         | [] \<Rightarrow> Inr event_properties)"




section \<open>Shifting a signal\<close>

text \<open>
  Adding a constant to every element of a position or velocity signal: the numeric cells
  of the given columns are increased by \<open>c\<close>, in every row of the frame. The sum is taken
  over the reals, where the source's Float64 addition rounds.
\<close>

definition shift_val :: "real \<Rightarrow> val \<Rightarrow> val" where
  "shift_val c v = (case v of I i \<Rightarrow> F (real_of_int i + c) | F x \<Rightarrow> F (x + c) | _ \<Rightarrow> v)"

definition shift_columns :: "real \<Rightarrow> string list \<Rightarrow> frame \<Rightarrow> frame" where
  "shift_columns c cs fr =
     fr \<lparr> records := map (map (\<lambda>(k, v). if k \<in> set cs then (k, shift_val c v) else (k, v)))
                        (records fr) \<rparr>"



section \<open>The contract of the event processor\<close>














section \<open>Properties\<close>

subsection \<open>Run-length grouping\<close>

text \<open>
  Claim C10. For every index array and any two values of the factor argument,
  \<open>downsample\<close> returns the same list of runs: the result does not depend on
  the factor.
\<close>

theorem downsample_factor_irrelevant:
  "downsample arr f1 = downsample arr f2"
  by (simp add: downsample_def)

subsection \<open>Velocity estimation\<close>

lemma length_slice: "length (slice xs st en) = min (en - st) (length xs - st)"
  by (simp add: slice_def)

lemma nth_slice: "k < en - st \<Longrightarrow> st + k < length xs \<Longrightarrow> slice xs st en ! k = xs ! (st + k)"
  by (simp add: slice_def)

lemma length_zip_with: "length (zip_with f xs ys) = min (length xs) (length ys)"
  by (simp add: zip_with_def)

lemma nth_zip_with:
  "k < length xs \<Longrightarrow> k < length ys \<Longrightarrow> zip_with f xs ys ! k = f (xs ! k) (ys ! k)"
  by (simp add: zip_with_def)

lemma length_set_slice:
  "st \<le> en \<Longrightarrow> en \<le> length v \<Longrightarrow> length vals = en - st \<Longrightarrow>
   length (set_slice v st en vals) = length v"
  by (simp add: set_slice_def)

lemma nth_set_slice:
  "st \<le> i \<Longrightarrow> i < en \<Longrightarrow> en \<le> length v \<Longrightarrow> length vals = en - st \<Longrightarrow>
   set_slice v st en vals ! i = vals ! (i - st)"
  by (auto simp add: set_slice_def nth_append)

lemma smooth_length:
  assumes "6 \<le> length arr" "length v = length arr"
  shows "length (smooth A arr r v) = length arr"
  using assms
  by (simp add: smooth_def Let_def length_set_slice length_zip_with length_slice)

lemma smooth_interior:
  assumes "6 \<le> length arr" "length v = length arr" "2 \<le> i" "i + 3 \<le> length arr"
  shows "smooth A arr r v ! i =
     odiv A (omul A (osub A (osub A (oadd A (arr ! (i + 2)) (arr ! (i + 1))) (arr ! (i - 1)))
        (arr ! (i - 2))) r) 6"
proof -
  let ?N = "length arr"
  let ?ma = "zip_with (osub A)
              (zip_with (osub A)
                 (zip_with (oadd A) (slice arr 4 ?N) (slice arr 3 (?N - 1)))
                 (slice arr 1 (?N - 3)))
              (slice arr 0 (?N - 4))"
  let ?vals = "map (\<lambda>m. odiv A (omul A m r) 6) ?ma"
  have len: "length ?vals = ?N - 4"
    using assms(1) by (simp add: length_zip_with length_slice)
  have k: "i - 2 < ?N - 4" using assms by linarith
  have idx: "4 + (i - 2) = i + 2" "3 + (i - 2) = i + 1" "1 + (i - 2) = i - 1"
    using assms by linarith+
  have ma: "?ma ! (i - 2) =
     osub A (osub A (oadd A (arr ! (i + 2)) (arr ! (i + 1))) (arr ! (i - 1))) (arr ! (i - 2))"
    using assms k
    by (simp add: nth_zip_with length_zip_with length_slice nth_slice idx del: One_nat_def)
  have "set_slice v 2 (?N - 2) ?vals ! i = ?vals ! (i - 2)"
    using assms len by (intro nth_set_slice) auto
  also have "\<dots> = odiv A (omul A (?ma ! (i - 2)) r) 6"
    using k len by simp
  finally have core: "set_slice v 2 (?N - 2) ?vals ! i =
     odiv A (omul A (osub A (osub A (oadd A (arr ! (i + 2)) (arr ! (i + 1))) (arr ! (i - 1)))
        (arr ! (i - 2))) r) 6"
    by (simp only: ma)
  have ne: "i \<noteq> 1" "i \<noteq> ?N - 2" "i \<noteq> 0" "i \<noteq> ?N - 1" using assms by linarith+
  show ?thesis
    unfolding smooth_def Let_def using ne core by simp
qed

lemma smooth_edges:
  assumes "6 \<le> length arr" "length v = length arr"
  shows "smooth A arr r v ! 1 = odiv A (omul A (osub A (arr ! 2) (arr ! 0)) r) 2"
    and "smooth A arr r v ! (length arr - 2) =
           odiv A (omul A (osub A (arr ! (length arr - 1)) (arr ! (length arr - 3))) r) 2"
    and "smooth A arr r v ! 0 = odiv A (omul A (osub A (arr ! 1) (arr ! 0)) r) 2"
    and "smooth A arr r v ! (length arr - 1) =
           odiv A (omul A (osub A (arr ! (length arr - 1)) (arr ! (length arr - 2))) r) 2"
proof -
  let ?N = "length arr"
  have len: "\<And>vals. length vals = ?N - 4 \<Longrightarrow> length (set_slice v 2 (?N - 2) vals) = ?N"
    using assms by (simp add: set_slice_def)
  have ne: "(1::nat) \<noteq> ?N - 2" "(1::nat) \<noteq> ?N - 1" "?N - 2 \<noteq> 0" "?N - 2 \<noteq> ?N - 1"
           "0 \<noteq> ?N - 1" "1 < ?N" "?N - 2 < ?N" "0 < ?N" "?N - 1 < ?N"
    using assms by linarith+
  show "smooth A arr r v ! 1 = odiv A (omul A (osub A (arr ! 2) (arr ! 0)) r) 2"
    unfolding smooth_def Let_def using ne assms
    by (simp add: len length_zip_with length_slice)
  show "smooth A arr r v ! (length arr - 2) =
           odiv A (omul A (osub A (arr ! (length arr - 1)) (arr ! (length arr - 3))) r) 2"
    unfolding smooth_def Let_def using ne assms
    by (simp add: len length_zip_with length_slice)
  show "smooth A arr r v ! 0 = odiv A (omul A (osub A (arr ! 1) (arr ! 0)) r) 2"
    unfolding smooth_def Let_def using ne assms
    by (simp add: len length_zip_with length_slice)
  show "smooth A arr r v ! (length arr - 1) =
           odiv A (omul A (osub A (arr ! (length arr - 1)) (arr ! (length arr - 2))) r) 2"
    unfolding smooth_def Let_def using ne assms
    by (simp add: len length_zip_with length_slice)
qed


lemma smooth_num_formula:
  assumes "6 \<le> length x" "length v = length x"
  shows "smooth_formula (\<lambda>i. x ! i) (\<lambda>i. smooth num_arith x r v ! i) (length x) r"
proof -
  have "\<And>i. 2 \<le> i \<Longrightarrow> i \<le> length x - 3 \<Longrightarrow> i + 3 \<le> length x"
    using assms(1) by linarith
  then show ?thesis
    unfolding smooth_formula_def
    using assms smooth_edges [OF assms, of num_arith r]
    by (simp add: smooth_interior num_arith_def)
qed

lemma row_arith_nth:
  assumes "j < length a" "length b = length a" "length c = length a" "length d = length a"
  shows "odiv row_arith (omul row_arith (osub row_arith (osub row_arith (oadd row_arith a b) c) d) r) k ! j
         = (a ! j + b ! j - c ! j - d ! j) * r / k"
    and "odiv row_arith (omul row_arith (osub row_arith a b) r) k ! j = (a ! j - b ! j) * r / k"
  using assms by (simp_all add: row_arith_def)

lemma row_arith_length:
  assumes "length b = length a" "length c = length a" "length d = length a"
  shows "length (odiv row_arith (omul row_arith (osub row_arith (osub row_arith (oadd row_arith a b) c) d) r) k)
         = length a"
  using assms by (simp add: row_arith_def)

lemma row_arith_length2:
  assumes "length b = length a"
  shows "length (odiv row_arith (omul row_arith (osub row_arith a b) r) k) = length a"
  using assms by (simp add: row_arith_def)

lemma smooth_row_cases:
  assumes "6 \<le> N" "i < N"
  shows "(2 \<le> i \<and> i + 3 \<le> N) \<or> i = 1 \<or> i = N - 2 \<or> i = 0 \<or> i = N - (1::nat)"
  using assms by linarith

lemma smooth_rows_width:
  assumes "6 \<le> length rows" "length v = length rows" "list_all (\<lambda>r. length r = c) rows"
    and "i < length rows"
  shows "length (smooth row_arith rows r v ! i) = c"
proof -
  let ?N = "length rows"
  have w: "\<And>k. k < ?N \<Longrightarrow> length (rows ! k) = c"
    using assms(3) by (simp add: list_all_length)
  have l: "length (rows ! 0) = c" "length (rows ! 1) = c" "length (rows ! 2) = c"
    "length (rows ! (?N - 1)) = c" "length (rows ! (?N - 2)) = c" "length (rows ! (?N - 3)) = c"
    using assms(1) by (auto intro!: w)
  note e = smooth_edges [OF assms(1,2), of row_arith r]
  from smooth_row_cases [OF assms(1) assms(4)]
  consider "2 \<le> i \<and> i + 3 \<le> ?N" | "i = 1" | "i = ?N - 2" | "i = 0" | "i = ?N - 1"
    by blast
  then show ?thesis
  proof cases
    case 1
    then have "length (rows ! (i + 2)) = c" "length (rows ! (i + 1)) = c"
      "length (rows ! (i - 1)) = c" "length (rows ! (i - 2)) = c"
      by (auto intro!: w)
    moreover have "smooth row_arith rows r v ! i =
       odiv row_arith (omul row_arith (osub row_arith (osub row_arith
         (oadd row_arith (rows ! (i + 2)) (rows ! (i + 1))) (rows ! (i - 1))) (rows ! (i - 2))) r) 6"
      using assms(1,2) 1 by (intro smooth_interior) auto
    ultimately show ?thesis
      by (simp add: row_arith_length)
  next
    case 2
    show ?thesis unfolding 2 e(1) using l by (simp only: row_arith_length2)
  next
    case 3
    show ?thesis unfolding 3 e(2) using l by (simp only: row_arith_length2)
  next
    case 4
    show ?thesis unfolding 4 e(3) using l by (simp only: row_arith_length2)
  next
    case 5
    show ?thesis unfolding 5 e(4) using l by (simp only: row_arith_length2)
  qed
qed

lemma smooth_row_formula:
  assumes "6 \<le> length rows" "length v = length rows" "list_all (\<lambda>r. length r = c) rows"
    and "j < c"
  shows "smooth_formula (\<lambda>i. rows ! i ! j) (\<lambda>i. smooth row_arith rows r v ! i ! j) (length rows) r"
proof -
  let ?N = "length rows"
  have w: "\<And>k. k < ?N \<Longrightarrow> length (rows ! k) = c"
    using assms(3) by (simp add: list_all_length)
  note e = smooth_edges [OF assms(1,2), of row_arith r]
  have interior: "smooth row_arith rows r v ! i ! j =
      (rows ! (i + 2) ! j + rows ! (i + 1) ! j - rows ! (i - 1) ! j - rows ! (i - 2) ! j) * r / 6"
    if "2 \<le> i" "i \<le> ?N - 3" for i
  proof -
    have b: "i + 3 \<le> ?N" using that assms(1) by linarith
    have "smooth row_arith rows r v ! i =
       odiv row_arith (omul row_arith (osub row_arith (osub row_arith
         (oadd row_arith (rows ! (i + 2)) (rows ! (i + 1))) (rows ! (i - 1))) (rows ! (i - 2))) r) 6"
      using assms(1,2) that(1) b by (rule smooth_interior)
    moreover have "length (rows ! (i + 2)) = c" "length (rows ! (i + 1)) = c"
      "length (rows ! (i - 1)) = c" "length (rows ! (i - 2)) = c"
      using b by (auto intro!: w)
    ultimately show ?thesis
      using assms(4) by (simp only: row_arith_nth(1))
  qed
  have l: "length (rows ! 0) = c" "length (rows ! 1) = c" "length (rows ! 2) = c"
    "length (rows ! (?N - 1)) = c" "length (rows ! (?N - 2)) = c" "length (rows ! (?N - 3)) = c"
    using assms(1) by (auto intro!: w)
  show ?thesis
    unfolding smooth_formula_def
    using interior assms(4) l
    by (simp only: e row_arith_nth(2)) simp
qed

text \<open>
  Claim C3. For a position sequence of at least six samples and a positive sampling rate,
  \<open>pos2vel\<close> with method \<open>smooth\<close> returns an array of the same shape whose entries are
  given by the five formulas of the specification: the five-point formula over 6 at the
  interior indices, the central difference over 2 at the second and second-last index,
  the forward and backward difference over 2 at the first and last index. The first
  conjunct is the one-dimensional array, the second the two-dimensional array, channel
  by channel.
\<close>

theorem pos2vel_smooth:
  assumes "0 < r"
  shows "(6 \<le> length x \<longrightarrow>
           (\<exists>v. pos2vel savgol (Vec x) r ''smooth'' [] = Inr (Vec v) \<and> length v = length x
              \<and> smooth_formula (\<lambda>i. x ! i) (\<lambda>i. v ! i) (length x) r))
       \<and> (6 \<le> length rows \<and> wf_array (Mat c rows) \<longrightarrow>
           (\<exists>v. pos2vel savgol (Mat c rows) r ''smooth'' [] = Inr (Mat c v)
              \<and> length v = length rows \<and> wf_array (Mat c v)
              \<and> (\<forall>j<c. smooth_formula (\<lambda>i. rows ! i ! j) (\<lambda>i. v ! i ! j) (length rows) r)))"
proof (intro conjI impI)
  assume n: "6 \<le> length x"
  let ?v = "smooth num_arith x r (replicate (length x) 0)"
  have "pos2vel savgol (Vec x) r ''smooth'' [] = Inr (Vec ?v)"
    using assms n by (simp add: pos2vel_def ndim_def shape0_def)
  moreover have "length ?v = length x"
    using n by (simp add: smooth_length)
  moreover have "smooth_formula (\<lambda>i. x ! i) (\<lambda>i. ?v ! i) (length x) r"
    using n by (simp add: smooth_num_formula)
  ultimately show "\<exists>v. pos2vel savgol (Vec x) r ''smooth'' [] = Inr (Vec v) \<and> length v = length x
              \<and> smooth_formula (\<lambda>i. x ! i) (\<lambda>i. v ! i) (length x) r"
    by blast
next
  assume a: "6 \<le> length rows \<and> wf_array (Mat c rows)"
  then have n: "6 \<le> length rows" and w: "list_all (\<lambda>r. length r = c) rows" by simp_all
  let ?z = "replicate (length rows) (replicate c (0::real))"
  let ?v = "smooth row_arith rows r ?z"
  have z: "length ?z = length rows" by simp
  have "pos2vel savgol (Mat c rows) r ''smooth'' [] = Inr (Mat c ?v)"
    using assms n by (simp add: pos2vel_def ndim_def shape0_def)
  moreover have len: "length ?v = length rows"
    using n by (simp add: smooth_length)
  moreover have "wf_array (Mat c ?v)"
    using smooth_rows_width [OF n z w] len by (simp add: list_all_length)
  moreover have "\<forall>j<c. smooth_formula (\<lambda>i. rows ! i ! j) (\<lambda>i. ?v ! i ! j) (length rows) r"
    using smooth_row_formula [OF n z w] by blast
  ultimately show "\<exists>v. pos2vel savgol (Mat c rows) r ''smooth'' [] = Inr (Mat c v)
              \<and> length v = length rows \<and> wf_array (Mat c v)
              \<and> (\<forall>j<c. smooth_formula (\<lambda>i. rows ! i ! j) (\<lambda>i. v ! i ! j) (length rows) r)"
    by blast
qed

theorem pos2vel_smooth_witness:
  "(0::real) < 2 \<and> 6 \<le> length [0, 1, 3, 6, 10, 15, 21 :: real]
   \<and> (\<exists>v. pos2vel (\<lambda>k x. Inr x) (Vec [0, 1, 3, 6, 10, 15, 21]) 2 ''smooth'' ([] :: unit list) = Inr (Vec v)
        \<and> length v = length [0, 1, 3, 6, 10, 15, 21 :: real]
        \<and> smooth_formula (\<lambda>i. [0, 1, 3, 6, 10, 15, 21] ! i) (\<lambda>i. v ! i)
             (length [0, 1, 3, 6, 10, 15, 21 :: real]) 2)
   \<and> 6 \<le> length [[0, 0], [1, 1], [3, 0], [6, 2], [10, 0], [15, 1 :: real]]
   \<and> wf_array (Mat 2 [[0, 0], [1, 1], [3, 0], [6, 2], [10, 0], [15, 1 :: real]])
   \<and> (\<exists>v. pos2vel (\<lambda>k x. Inr x) (Mat 2 [[0, 0], [1, 1], [3, 0], [6, 2], [10, 0], [15, 1]]) 2
             ''smooth'' ([] :: unit list) = Inr (Mat 2 v)
        \<and> length v = length [[0, 0], [1, 1], [3, 0], [6, 2], [10, 0], [15, 1 :: real]]
        \<and> wf_array (Mat 2 v))"
  using pos2vel_smooth [of 2 "[0, 1, 3, 6, 10, 15, 21]" "\<lambda>k x. Inr x"
      "[[0, 0], [1, 1], [3, 0], [6, 2], [10, 0], [15, 1]]" 2]
  by auto

subsection \<open>Pixel to degree conversion\<close>

lemmas pix2deg_unfold =
  pix2deg_def ndim_def last_dim_def bc_ok_def bc_row_def bc_len_def np_tile2_def
  pix2deg_formula_def Let_def

lemma pix2deg_scalar:
  assumes "p \<noteq> 0" "c \<noteq> 0" "d \<noteq> 0" "origin = ''lower left'' \<or> origin = ''center''"
  shows "pix2deg (Some (Scalar x)) (Num p) (Num c) d origin =
           Inr (Scalar (pix2deg_formula x p c d origin))"
  using assms by (auto simp add: pix2deg_unfold)

lemma pix2deg_vec:
  assumes "p \<noteq> 0" "c \<noteq> 0" "d \<noteq> 0" "origin = ''lower left'' \<or> origin = ''center''"
    and "length xs \<noteq> 2" "length xs \<noteq> 4"
  shows "pix2deg (Some (Vec xs)) (Num p) (Num c) d origin =
           Inr (Vec (map (\<lambda>x. pix2deg_formula x p c d origin) xs))"
  using assms by (auto simp add: pix2deg_unfold)

lemma pix2deg_mat1:
  assumes "p \<noteq> 0" "c \<noteq> 0" "d \<noteq> 0" "origin = ''lower left'' \<or> origin = ''center''"
  shows "pix2deg (Some (Mat 1 rows)) (Num p) (Num c) d origin =
           Inr (Mat 1 (map (map (\<lambda>x. pix2deg_formula x p c d origin)) rows))"
  using assms by (auto simp add: pix2deg_unfold)

lemma row2: "length r = 2 \<Longrightarrow> \<exists>a b. r = [a, b]"
  by (cases r; cases "tl r"; cases "tl (tl r)") auto

lemma row4: "length r = 4 \<Longrightarrow> \<exists>a b c d. r = [a, b, c, d]"
  by (cases r; cases "tl r"; cases "tl (tl r)"; cases "tl (tl (tl r))";
      cases "tl (tl (tl (tl r)))") auto

lemma broadcast_mat2:
  assumes "list_all (\<lambda>r. length r = 2) rows"
  shows "broadcast f (Mat 2 rows) (Vec [u, v]) =
           Inr (Mat 2 (map (\<lambda>r. [f (r ! 0) u, f (r ! 1) v]) rows))"
proof -
  have "map (\<lambda>r. bc_row f r [u, v]) rows = map (\<lambda>r. [f (r ! 0) u, f (r ! 1) v]) rows"
  proof (rule map_cong [OF refl])
    fix r assume "r \<in> set rows"
    then have "length r = 2" using assms by (simp add: list_all_iff)
    from row2 [OF this] obtain a b where "r = [a, b]" by blast
    then show "bc_row f r [u, v] = [f (r ! 0) u, f (r ! 1) v]"
      by (simp add: bc_row_def)
  qed
  then show ?thesis by (simp add: bc_ok_def bc_len_def)
qed

lemma broadcast_mat4:
  assumes "list_all (\<lambda>r. length r = 4) rows"
  shows "broadcast f (Mat 4 rows) (Vec [u, v, w, z]) =
           Inr (Mat 4 (map (\<lambda>r. [f (r ! 0) u, f (r ! 1) v, f (r ! 2) w, f (r ! 3) z]) rows))"
proof -
  have "map (\<lambda>r. bc_row f r [u, v, w, z]) rows
      = map (\<lambda>r. [f (r ! 0) u, f (r ! 1) v, f (r ! 2) w, f (r ! 3) z]) rows"
  proof (rule map_cong [OF refl])
    fix r assume "r \<in> set rows"
    then have "length r = 4" using assms by (simp add: list_all_iff)
    from row4 [OF this] obtain a b c d where "r = [a, b, c, d]" by blast
    then show "bc_row f r [u, v, w, z] = [f (r ! 0) u, f (r ! 1) v, f (r ! 2) w, f (r ! 3) z]"
      by (simp add: bc_row_def)
  qed
  then show ?thesis by (simp add: bc_ok_def bc_len_def)
qed

lemma broadcast_vec2:
  "broadcast f (Vec [p0, p1]) (Vec [c0, c1]) = Inr (Vec [f p0 c0, f p1 c1])"
  by (simp add: bc_ok_def bc_row_def)

lemma broadcast_vec4:
  "broadcast f (Vec [p0, p1, p2, p3]) (Vec [c0, c1, c2, c3]) =
     Inr (Vec [f p0 c0, f p1 c1, f p2 c2, f p3 c3])"
  by (simp add: bc_ok_def bc_row_def)

lemma pix2deg_mat2:
  assumes "p0 \<noteq> 0" "p1 \<noteq> 0" "c0 \<noteq> 0" "c1 \<noteq> 0" "d \<noteq> 0"
    and "origin = ''lower left'' \<or> origin = ''center''"
    and "wf_array (Mat 2 rows)"
  shows "pix2deg (Some (Mat 2 rows)) (Seq [p0, p1]) (Seq [c0, c1]) d origin =
           Inr (Mat 2 (map (\<lambda>r. [pix2deg_formula (r ! 0) p0 c0 d origin,
                                   pix2deg_formula (r ! 1) p1 c1 d origin]) rows))"
proof -
  have w: "list_all (\<lambda>r. length r = 2) rows" using assms(7) by simp
  have w': "list_all (\<lambda>r. length r = 2) (map (\<lambda>r. [g r, h r]) rows)" for g h :: "real list \<Rightarrow> real"
    by (simp add: list_all_iff)
  from assms(6) show ?thesis
  proof
    assume o: "origin = ''lower left''"
    show ?thesis
      using assms(1-5)
      by (simp add: pix2deg_def ndim_def last_dim_def Let_def broadcast_vec2 o
          broadcast_mat2 [OF w] broadcast_mat2 [OF w'] pix2deg_formula_def o del: broadcast.simps)
  next
    assume o: "origin = ''center''"
    show ?thesis
      using assms(1-5)
      by (simp add: pix2deg_def ndim_def last_dim_def Let_def broadcast_vec2 o
          broadcast_mat2 [OF w] pix2deg_formula_def del: broadcast.simps)
  qed
qed

lemma pix2deg_mat4:
  assumes "p0 \<noteq> 0" "p1 \<noteq> 0" "c0 \<noteq> 0" "c1 \<noteq> 0" "d \<noteq> 0"
    and "origin = ''lower left'' \<or> origin = ''center''"
    and "wf_array (Mat 4 rows)"
  shows "pix2deg (Some (Mat 4 rows)) (Seq [p0, p1]) (Seq [c0, c1]) d origin =
           Inr (Mat 4 (map (\<lambda>r. [pix2deg_formula (r ! 0) p0 c0 d origin,
                                   pix2deg_formula (r ! 1) p1 c1 d origin,
                                   pix2deg_formula (r ! 2) p0 c0 d origin,
                                   pix2deg_formula (r ! 3) p1 c1 d origin]) rows))"
proof -
  have w: "list_all (\<lambda>r. length r = 4) rows" using assms(7) by simp
  have w': "list_all (\<lambda>r. length r = 4) (map (\<lambda>r. [g r, h r, k r, l r]) rows)"
    for g h k l :: "real list \<Rightarrow> real"
    by (simp add: list_all_iff)
  from assms(6) show ?thesis
  proof
    assume o: "origin = ''lower left''"
    show ?thesis
      using assms(1-5)
      by (simp add: pix2deg_def ndim_def last_dim_def Let_def np_tile2_def broadcast_vec4 o
          broadcast_mat4 [OF w] broadcast_mat4 [OF w'] pix2deg_formula_def o del: broadcast.simps)
  next
    assume o: "origin = ''center''"
    show ?thesis
      using assms(1-5)
      by (simp add: pix2deg_def ndim_def last_dim_def Let_def np_tile2_def broadcast_vec4 o
          broadcast_mat4 [OF w] pix2deg_formula_def del: broadcast.simps)
  qed
qed

lemma pix2deg_other_origin:
  assumes "origin \<noteq> ''lower left''" "origin \<noteq> ''center''"
  shows "isl (pix2deg arr screen_px screen_cm d origin)"
  using assms
  by (auto simp add: pix2deg_def Let_def split: option.splits sum.splits)


text \<open>
  Claim C6, as stated, fails on the code in three ways. A scalar coordinate with screen
  vectors of one element passes every check and comes back as a one-dimensional array
  of one element, so the shape is not preserved; a scalar coordinate with two-element
  screen vectors is rejected by the dimension check although no screen parameter is
  zero; and the origin \<^verbatim>\<open>'lower-left'\<close> is rejected, the source's spelling being
  \<^verbatim>\<open>'lower left'\<close>.
\<close>

theorem pix2deg_claim_counterexample:
  "pix2deg (Some (Scalar 0)) (Seq [1]) (Seq [1]) 1 ''center'' = Inr (Vec [0])
   \<and> check_no_zeros (Seq [1920, 1080]) ''screen_px'' = None
   \<and> check_no_zeros (Seq [48, 27]) ''screen_cm'' = None
   \<and> pix2deg (Some (Scalar 960)) (Seq [1920, 1080]) (Seq [48, 27]) 60 ''center''
       = Inl (ValueError ''arr is 1-dimensional, but screen_px is not'')
   \<and> pix2deg (Some (Mat 2 [[960, 540]])) (Seq [1920, 1080]) (Seq [48, 27]) 60 ''lower-left''
       = Inl (ValueError ''origin lower-left is not supported.'')"
  by (simp add: pix2deg_def ndim_def last_dim_def bc_ok_def bc_row_def bc_len_def arctan2_def)

text \<open>
  Claim C6, amended. With no zero among the screen parameters and an origin of
  \<^verbatim>\<open>'lower left'\<close> or \<^verbatim>\<open>'center'\<close>, \<open>pix2deg\<close> returns the conversion of every
  coordinate, in the shape of the input, for the shapes the dimension checks pair up: a
  scalar, a one-dimensional array of a length other than 2 and 4, or an \<open>(N, 1)\<close> array
  with scalar screen parameters; an \<open>(N, 2)\<close> array with two-element screen vectors; an
  \<open>(N, 4)\<close> array with two-element screen vectors, used twice over. With any other
  origin \<open>pix2deg\<close> raises, whatever the other arguments.
\<close>

theorem pix2deg_elementwise:
  assumes "p \<noteq> 0" "c \<noteq> 0" "p0 \<noteq> 0" "p1 \<noteq> 0" "c0 \<noteq> 0" "c1 \<noteq> 0" "d \<noteq> 0"
  shows "(origin = ''lower left'' \<or> origin = ''center'' \<longrightarrow>
            pix2deg (Some (Scalar x)) (Num p) (Num c) d origin
              = Inr (Scalar (pix2deg_formula x p c d origin))
          \<and> (length xs \<noteq> 2 \<and> length xs \<noteq> 4 \<longrightarrow>
               pix2deg (Some (Vec xs)) (Num p) (Num c) d origin
                 = Inr (Vec (map (\<lambda>x. pix2deg_formula x p c d origin) xs)))
          \<and> pix2deg (Some (Mat 1 rows1)) (Num p) (Num c) d origin
              = Inr (Mat 1 (map (map (\<lambda>x. pix2deg_formula x p c d origin)) rows1))
          \<and> (wf_array (Mat 2 rows2) \<longrightarrow>
               pix2deg (Some (Mat 2 rows2)) (Seq [p0, p1]) (Seq [c0, c1]) d origin
                 = Inr (Mat 2 (map (\<lambda>r. [pix2deg_formula (r ! 0) p0 c0 d origin,
                                         pix2deg_formula (r ! 1) p1 c1 d origin]) rows2)))
          \<and> (wf_array (Mat 4 rows4) \<longrightarrow>
               pix2deg (Some (Mat 4 rows4)) (Seq [p0, p1]) (Seq [c0, c1]) d origin
                 = Inr (Mat 4 (map (\<lambda>r. [pix2deg_formula (r ! 0) p0 c0 d origin,
                                         pix2deg_formula (r ! 1) p1 c1 d origin,
                                         pix2deg_formula (r ! 2) p0 c0 d origin,
                                         pix2deg_formula (r ! 3) p1 c1 d origin]) rows4))))
       \<and> (origin \<noteq> ''lower left'' \<and> origin \<noteq> ''center'' \<longrightarrow>
            isl (pix2deg arr screen_px screen_cm d origin))"
proof (intro conjI impI)
  assume o: "origin = ''lower left'' \<or> origin = ''center''"
  show "pix2deg (Some (Scalar x)) (Num p) (Num c) d origin
          = Inr (Scalar (pix2deg_formula x p c d origin))"
    using assms o by (intro pix2deg_scalar)
  show "pix2deg (Some (Mat 1 rows1)) (Num p) (Num c) d origin
          = Inr (Mat 1 (map (map (\<lambda>x. pix2deg_formula x p c d origin)) rows1))"
    using assms o by (intro pix2deg_mat1)
  {
    assume "length xs \<noteq> 2 \<and> length xs \<noteq> 4"
    then show "pix2deg (Some (Vec xs)) (Num p) (Num c) d origin
                 = Inr (Vec (map (\<lambda>x. pix2deg_formula x p c d origin) xs))"
      using assms o by (intro pix2deg_vec) simp_all
  }
  {
    assume "wf_array (Mat 2 rows2)"
    then show "pix2deg (Some (Mat 2 rows2)) (Seq [p0, p1]) (Seq [c0, c1]) d origin
                 = Inr (Mat 2 (map (\<lambda>r. [pix2deg_formula (r ! 0) p0 c0 d origin,
                                         pix2deg_formula (r ! 1) p1 c1 d origin]) rows2))"
      using assms o by (intro pix2deg_mat2)
  }
  {
    assume "wf_array (Mat 4 rows4)"
    then show "pix2deg (Some (Mat 4 rows4)) (Seq [p0, p1]) (Seq [c0, c1]) d origin
                 = Inr (Mat 4 (map (\<lambda>r. [pix2deg_formula (r ! 0) p0 c0 d origin,
                                         pix2deg_formula (r ! 1) p1 c1 d origin,
                                         pix2deg_formula (r ! 2) p0 c0 d origin,
                                         pix2deg_formula (r ! 3) p1 c1 d origin]) rows4))"
      using assms o by (intro pix2deg_mat4)
  }
next
  assume "origin \<noteq> ''lower left'' \<and> origin \<noteq> ''center''"
  then show "isl (pix2deg arr screen_px screen_cm d origin)"
    by (simp add: pix2deg_other_origin)
qed

theorem pix2deg_elementwise_witness:
  "(1920::real) \<noteq> 0 \<and> (48::real) \<noteq> 0 \<and> (1080::real) \<noteq> 0 \<and> (27::real) \<noteq> 0 \<and> (60::real) \<noteq> 0
   \<and> wf_array (Mat 2 [[959.5, 539.5 :: real]])
   \<and> pix2deg (Some (Mat 2 [[959.5, 539.5]])) (Seq [1920, 1080]) (Seq [48, 27]) 60 ''lower left''
       = Inr (Mat 2 [[0, 0]])
   \<and> pix2deg (Some (Scalar 0)) (Num 1920) (Num 48) 60 ''center'' = Inr (Scalar 0)
   \<and> isl (pix2deg (Some (Scalar 0)) (Num 1920) (Num 48) 60 ''upper left'')"
proof -
  have f: "pix2deg_formula 959.5 1920 48 60 ''lower left'' = 0"
    "pix2deg_formula 539.5 1080 27 60 ''lower left'' = 0"
    "pix2deg_formula 0 1920 48 60 ''center'' = 0"
    by (simp_all add: pix2deg_formula_def arctan2_def)
  note t = pix2deg_elementwise [of 1920 48 1920 1080 48 27 60 _ 0 "[]" "[]" "[[959.5, 539.5]]" "[]"
      "Some (Scalar 0)" "Num 1920" "Num 48"]
  show ?thesis
    using t [of "''lower left''"] t [of "''center''"] t [of "''upper left''"] f
    by simp
qed

text \<open>
  Claim C7 says that a zero in \<^verbatim>\<open>screen_cm\<close> yields a message naming \<^verbatim>\<open>screen_cm\<close>.
  The source checks \<^verbatim>\<open>screen_cm\<close> under the name \<^verbatim>\<open>'screen_px'\<close>: with a valid
  \<^verbatim>\<open>screen_px\<close> and a zero width in \<^verbatim>\<open>screen_cm\<close>, the call fails, and the message
  names \<^verbatim>\<open>screen_px\<close>.
\<close>

theorem pix2deg_zero_screen_cm_message:
  "check_no_zeros (Seq [1920, 1080]) ''screen_px'' = None
   \<and> pix2deg (Some (Mat 2 [[960, 540]])) (Seq [1920, 1080]) (Seq [0, 27]) 60 ''center''
       = Inl (ValueError ''each component in screen_px must not be zero'')"
  by (simp add: pix2deg_def)

subsection \<open>Event detection\<close>

lemmas microsaccades_unfold =
  microsaccades_def check_shapes_positions_velocities_def check_is_length_matching_def
  resolve_threshold_def ndim_def fless_def fmul_def flift2_def outside_ellipse_def
  np_where_def consecutive_def np_diff_def np_split_def slice_def EventDataFrame_def Let_def

text \<open>
  Claim C1, as stated, fails at equality: the source tests
  \<^verbatim>\<open>(threshold < minimum_threshold).any()\<close>, so a threshold equal to the minimum does not
  strictly exceed it and is accepted. With threshold \<open>(1, 1)\<close> and minimum 1 an event is
  returned.
\<close>

theorem microsaccades_threshold_equal_minimum:
  "\<not> (1::real) < 1
   \<and> microsaccades (Mat 2 [[Some 0, Some 0]]) (Mat 2 [[Some 50, Some 50]]) None 0
         (ThrValues [Some 1, Some 1]) 6 1 False
       = Inr [\<lparr> name = ''saccade'', onset = 0, offset = 0 \<rparr>]"
  by (simp add: microsaccades_unfold power2_eq_square)

text \<open>
  Claim C1, amended. If some component of the resolved threshold is strictly below
  \<open>minimum_threshold\<close>, then \<open>microsaccades\<close> raises and returns no events, whatever the
  positions, time steps, minimum duration, threshold factor and \<open>include_nan\<close>.
\<close>

theorem microsaccades_threshold_below_minimum:
  assumes "resolve_threshold rows threshold = Inr th"
    and "list_ex (\<lambda>t. fless t minimum_threshold) th"
  shows "isl (microsaccades positions (Mat 2 rows) timesteps minimum_duration threshold
                threshold_factor minimum_threshold include_nan)"
  using assms
  by (simp add: microsaccades_def Let_def split: option.splits)

theorem microsaccades_threshold_below_minimum_witness:
  "resolve_threshold [[Some 50, Some 50]] (ThrValues [Some 1, Some (1 / 2)]) = Inr [Some 1, Some (1 / 2)]
   \<and> list_ex (\<lambda>t. fless t 1) [Some 1, Some (1 / 2)]
   \<and> isl (microsaccades (Mat 2 [[Some 0, Some 0]]) (Mat 2 [[Some 50, Some 50]]) None 0
             (ThrValues [Some 1, Some (1 / 2)]) 6 1 False)"
proof -
  have r: "resolve_threshold [[Some 50, Some 50]] (ThrValues [Some 1, Some (1 / 2)])
           = Inr [Some 1, Some (1 / 2)]"
    by (simp add: resolve_threshold_def)
  have l: "list_ex (\<lambda>t. fless t 1) [Some 1, Some (1 / 2)]"
    by (simp add: fless_def)
  show ?thesis
    using r l microsaccades_threshold_below_minimum [OF r l] by blast
qed

text \<open>
  Claim C2. Eleven velocity samples, five \<open>(0, 0)\<close>, one \<open>(50, 50)\<close> and five \<open>(0, 0)\<close>,
  with any positions of shape \<open>(11, 2)\<close>, the default time steps, the explicit threshold
  \<open>(1, 1)\<close>, threshold factor 1 and minimum duration 0 (the minimum threshold at its
  default \<open>1e-10\<close>, \<open>include_nan\<close> at its default): exactly one event, with onset and
  offset 5.
\<close>

theorem microsaccades_single_spike:
  assumes "length positions = 11"
  shows "microsaccades (Mat 2 positions)
           (Mat 2 ([[Some 0, Some 0], [Some 0, Some 0], [Some 0, Some 0], [Some 0, Some 0],
                    [Some 0, Some 0], [Some 50, Some 50], [Some 0, Some 0], [Some 0, Some 0],
                    [Some 0, Some 0], [Some 0, Some 0], [Some 0, Some 0]]))
           None 0 (ThrValues [Some 1, Some 1]) 1 (1 / 10 ^ 10) False
         = Inr [\<lparr> name = ''saccade'', onset = 5, offset = 5 \<rparr>]"
  using assms
  by (simp add: microsaccades_unfold upt_rec [of _ "Suc _"] upt_rec [of _ "numeral _"])

theorem microsaccades_single_spike_witness:
  "length (replicate 11 [Some 0, Some (0::real)]) = 11
   \<and> microsaccades (Mat 2 (replicate 11 [Some 0, Some 0]))
           (Mat 2 ([[Some 0, Some 0], [Some 0, Some 0], [Some 0, Some 0], [Some 0, Some 0],
                    [Some 0, Some 0], [Some 50, Some 50], [Some 0, Some 0], [Some 0, Some 0],
                    [Some 0, Some 0], [Some 0, Some 0], [Some 0, Some 0]]))
           None 0 (ThrValues [Some 1, Some 1]) 1 (1 / 10 ^ 10) False
       = Inr [\<lparr> name = ''saccade'', onset = 5, offset = 5 \<rparr>]"
  using microsaccades_single_spike [of "replicate 11 [Some 0, Some 0]"]
  by simp

lemma fmul_Some: "fmul (Some k) x = map_option (\<lambda>y. k * y) x"
  by (cases x) (simp_all add: fmul_def flift2_def)

lemma nan_values_scale:
  "nan_values (map (fmul (Some k)) xs) = map (\<lambda>y. k * y) (nan_values xs)"
  by (induction xs) (auto simp: nan_values_def isnan_def fmul_Some)

lemma sort_scale:
  assumes "0 \<le> (k::real)"
  shows "sort (map (\<lambda>y. k * y) ys) = map (\<lambda>y. k * y) (sort ys)"
proof (rule properties_for_sort)
  show "mset (map (\<lambda>y. k * y) (sort ys)) = mset (map (\<lambda>y. k * y) ys)"
    by simp
  have "sorted_wrt (\<lambda>x y. x \<le> y) (sort ys)"
    by simp
  then have "sorted_wrt (\<lambda>x y. k * x \<le> k * y) (sort ys)"
    by (rule sorted_wrt_mono_rel [rotated]) (simp add: mult_left_mono assms)
  then show "sorted (map (\<lambda>y. k * y) (sort ys))"
    by (simp add: sorted_map)
qed

lemma median_scale:
  assumes "0 \<le> k"
  shows "median (map (\<lambda>y. k * y) ys) = fmul (Some k) (median ys)"
proof (cases "ys = []")
  case True
  then show ?thesis by (simp add: median_def fmul_Some)
next
  case False
  then have n: "0 < length ys" by simp
  have i: "length ys div 2 < length (sort ys)" "length ys div 2 - 1 < length (sort ys)"
    using n by (simp_all, arith)
  show ?thesis
    using n i
    by (simp add: median_def Let_def sort_scale [OF assms] fmul_Some ring_distribs)
qed

lemma nanmedian_scale:
  assumes "0 \<le> k"
  shows "nanmedian (map (fmul (Some k)) xs) = fmul (Some k) (nanmedian xs)"
  by (simp add: nanmedian_def nan_values_scale median_scale [OF assms])

lemma median_nonneg:
  assumes "\<forall>y\<in>set ys. 0 \<le> y" "median ys = Some m"
  shows "0 \<le> m"
proof -
  have n: "0 < length ys"
    using assms(2) by (auto simp: median_def Let_def split: if_splits)
  have s: "\<And>i. i < length ys \<Longrightarrow> 0 \<le> sort ys ! i"
    using assms(1) by (metis length_sort nth_mem set_sort)
  have "length ys div 2 < length ys" "length ys div 2 - 1 < length ys"
    using n by (simp_all, arith)
  then have "0 \<le> sort ys ! (length ys div 2)" "0 \<le> sort ys ! (length ys div 2 - 1)"
    by (auto intro: s)
  then show ?thesis
    using assms(2) n by (auto simp: median_def Let_def split: if_splits)
qed

lemma nan_values_pow2_nonneg: "\<forall>y \<in> set (nan_values (map (\<lambda>x. fpow2 (g x)) xs)). 0 \<le> y"
  by (auto simp: nan_values_def isnan_def fpow2_def)

lemma fsqrt_scale:
  assumes "0 \<le> k" "\<And>y. a = Some y \<Longrightarrow> 0 \<le> y"
  shows "fsqrt (fmul (Some (k ^ 2)) a) = fmul (Some k) (fsqrt a)"
proof (cases a)
  case None
  then show ?thesis by (simp add: fsqrt_def fmul_Some)
next
  case (Some y)
  then have "0 \<le> y" using assms(2) by simp
  then show ?thesis
    using assms(1) Some
    by (simp add: fsqrt_def fmul_Some real_sqrt_mult not_less)
qed

lemma dev_scale:
  "fpow2 (fsub (fmul (Some k) x) (fmul (Some k) m)) = fmul (Some (k ^ 2)) (fpow2 (fsub x m))"
  by (cases x; cases m) (simp_all add: fmul_Some fsub_def flift2_def fpow2_def power_mult_distrib
      flip: right_diff_distrib)

lemma threshold_engbert2015_scale:
  assumes "0 \<le> k"
  shows "threshold_of ''engbert2015'' (map (fmul (Some k)) col)
         = fmul (Some k) (threshold_of ''engbert2015'' col)"
proof -
  let ?m = "nanmedian col"
  let ?devs = "map (\<lambda>x. fpow2 (fsub x ?m)) col"
  have e: "threshold_of ''engbert2015'' xs
           = fsqrt (nanmedian (map (\<lambda>x. fpow2 (fsub x (nanmedian xs))) xs))" for xs
    by (simp add: threshold_of_def)
  have 1: "map (\<lambda>x. fpow2 (fsub x (nanmedian (map (fmul (Some k)) col)))) (map (fmul (Some k)) col)
        = map (fmul (Some (k ^ 2))) ?devs"
    by (simp add: nanmedian_scale [OF assms] dev_scale)
  have 2: "nanmedian (map (fmul (Some (k ^ 2))) ?devs) = fmul (Some (k ^ 2)) (nanmedian ?devs)"
    by (rule nanmedian_scale) simp
  have 3: "fsqrt (fmul (Some (k ^ 2)) (nanmedian ?devs)) = fmul (Some k) (fsqrt (nanmedian ?devs))"
  proof (rule fsqrt_scale [OF assms])
    fix y assume "nanmedian ?devs = Some y"
    then show "0 \<le> y"
      unfolding nanmedian_def
      by (rule median_nonneg
          [OF nan_values_pow2_nonneg [of "\<lambda>x. fsub x (median (nan_values col))" col]])
  qed
  show ?thesis
    unfolding e by (simp only: 1 2 3)
qed

lemma column_scale:
  assumes "list_all (\<lambda>r. length r = c) rows" "j < c"
  shows "column (map (map f) rows) j = map f (column rows j)"
  using assms by (simp add: column_def list_all_iff)

text \<open>
  Over the reals the threshold of method \<open>engbert2015\<close> is positively homogeneous: the
  threshold of an \<open>(N, 2)\<close> array scaled by \<open>k \<ge> 0\<close> is \<open>k\<close> times the threshold of the
  array. Claim C8 is the exact equality of the two Float64 results; the products, the
  mean of the two middle values and the root round there, and this lemma about the
  arithmetic of the reals does not decide it.
\<close>

lemma compute_threshold_engbert2015_scale:
  assumes "0 \<le> k" "wf_array (Mat 2 v)"
  shows "\<exists>th. compute_threshold 2 v ''engbert2015'' = Inr th
           \<and> compute_threshold 2 (map (map (fmul (Some k))) v) ''engbert2015''
               = Inr (map (fmul (Some k)) th)"
proof -
  have w: "list_all (\<lambda>r. length r = 2) v" using assms(2) by simp
  show ?thesis
    by (simp add: compute_threshold_def column_scale [OF w]
        threshold_engbert2015_scale [OF assms(1)])
qed

subsection \<open>Event properties: the column arguments\<close>

lemma check_columns_ok:
  "check_columns nm (PyTuple [PyStr a, PyStr b]) = None"
  by (simp add: check_columns_def)

lemma check_columns_not_tuple:
  assumes "\<forall>items. cols \<noteq> PyTuple items"
  shows "check_columns nm cols
         = Some (TypeError (nm @ '' must be of type tuple[str, str] but is of type '' @ type_name cols))"
  using assms by (cases cols) (simp_all add: check_columns_def)

lemma check_columns_length:
  assumes "length items \<noteq> 2"
  shows "check_columns nm (PyTuple items)
         = Some (TypeError (nm @ '' must be of length of 2 but is of length ''
                            @ str_nat (length items)))"
  using assms by (simp add: check_columns_def)

lemma check_columns_items:
  assumes "\<not> (is_str u \<and> is_str v)"
  shows "check_columns nm (PyTuple [u, v])
         = Some (TypeError (nm @ '' must be of type tuple[str, str] but is tuple[''
                            @ type_name u @ '', '' @ type_name v @ '']''))"
  using assms by (auto simp add: check_columns_def)

lemma column_argument_of:
  assumes "\<And>cols. property cols
             = (case check_columns arg cols of Some e \<Rightarrow> Inl e | None \<Rightarrow> Inr (g cols))"
  shows "(\<forall>a b. cols = PyTuple [PyStr a, PyStr b] \<longrightarrow> \<not> isl (property cols))
       \<and> ((\<forall>items. cols \<noteq> PyTuple items) \<longrightarrow>
            property cols = Inl (TypeError (arg @ '' must be of type tuple[str, str] but is of type ''
                                            @ type_name cols)))
       \<and> (\<forall>items. cols = PyTuple items \<and> length items \<noteq> 2 \<longrightarrow>
            property cols = Inl (TypeError (arg @ '' must be of length of 2 but is of length ''
                                            @ str_nat (length items))))
       \<and> (\<forall>u v. cols = PyTuple [u, v] \<and> \<not> (is_str u \<and> is_str v) \<longrightarrow>
            property cols = Inl (TypeError (arg @ '' must be of type tuple[str, str] but is tuple[''
                                            @ type_name u @ '', '' @ type_name v @ '']'')))"
proof (intro conjI allI impI)
  fix a b assume "cols = PyTuple [PyStr a, PyStr b]"
  then show "\<not> isl (property cols)"
    by (simp add: assms check_columns_ok)
next
  assume "\<forall>items. cols \<noteq> PyTuple items"
  then show "property cols = Inl (TypeError (arg @ '' must be of type tuple[str, str] but is of type ''
                                            @ type_name cols))"
    using check_columns_not_tuple [of cols arg] by (simp add: assms)
next
  fix items assume "cols = PyTuple items \<and> length items \<noteq> 2"
  then show "property cols = Inl (TypeError (arg @ '' must be of length of 2 but is of length ''
                                            @ str_nat (length items)))"
    using check_columns_length [of items arg] by (simp add: assms)
next
  fix u v assume "cols = PyTuple [u, v] \<and> \<not> (is_str u \<and> is_str v)"
  then show "property cols = Inl (TypeError (arg @ '' must be of type tuple[str, str] but is tuple[''
                                            @ type_name u @ '', '' @ type_name v @ '']''))"
    using check_columns_items [of u v arg] by (simp add: assms)
qed

text \<open>
  Claim C9, as stated, fails on a list: \<^verbatim>\<open>['x_pos', 'y_pos']\<close> is a 2-element sequence of
  names, and the check rejects it because it is not a tuple. The message names the
  argument and the type found, not the value.
\<close>

theorem property_column_list_rejected:
  "dispersion (PyList [PyStr ''x_pos'', PyStr ''y_pos''])
     = Inl (TypeError ''position_columns must be of type tuple[str, str] but is of type list'')"
  by (simp add: dispersion_def check_position_columns_def check_columns_def)

text \<open>
  Claim C9, amended. Each of the four properties with a column argument accepts every
  tuple of exactly two strings. On any other value it raises a \<^verbatim>\<open>TypeError\<close> whose message
  names the argument (\<^verbatim>\<open>velocity_columns\<close> for \<open>peak_velocity\<close>, \<^verbatim>\<open>position_columns\<close> for the
  others) and what was found in place of a pair of strings, not the value itself: the
  name of the type of a value that is not a tuple, the length of a tuple of another
  length, the names of the types of the two items of a pair with an item that is not a
  string.
\<close>

theorem property_column_argument:
  "list_all (\<lambda>(property, arg).
       (\<forall>a b. cols = PyTuple [PyStr a, PyStr b] \<longrightarrow> \<not> isl (property cols))
     \<and> ((\<forall>items. cols \<noteq> PyTuple items) \<longrightarrow>
          property cols = Inl (TypeError (arg @ '' must be of type tuple[str, str] but is of type ''
                                          @ type_name cols)))
     \<and> (\<forall>items. cols = PyTuple items \<and> length items \<noteq> 2 \<longrightarrow>
          property cols = Inl (TypeError (arg @ '' must be of length of 2 but is of length ''
                                          @ str_nat (length items))))
     \<and> (\<forall>u v. cols = PyTuple [u, v] \<and> \<not> (is_str u \<and> is_str v) \<longrightarrow>
          property cols = Inl (TypeError (arg @ '' must be of type tuple[str, str] but is tuple[''
                                          @ type_name u @ '', '' @ type_name v @ '']''))))
     column_properties"
proof -
  have 1: "peak_velocity c = (case check_columns ''velocity_columns'' c of Some e \<Rightarrow> Inl e
      | None \<Rightarrow> Inr (AggMax (Sqrt (Add (Pow (col_of c 0) 2) (Pow (col_of c 1) 2)))))" for c
    by (simp add: peak_velocity_def check_velocity_columns_def Let_def split: option.splits)
  have 2: "dispersion c = (case check_columns ''position_columns'' c of Some e \<Rightarrow> Inl e
      | None \<Rightarrow> Inr (Sub (Add (Sub (AggMax (col_of c 0)) (AggMin (col_of c 0)))
                               (AggMax (col_of c 1))) (AggMin (col_of c 1))))" for c
    by (simp add: dispersion_def check_position_columns_def Let_def split: option.splits)
  have 3: "amplitude c = (case check_columns ''position_columns'' c of Some e \<Rightarrow> Inl e
      | None \<Rightarrow> Inr (Sqrt (Add (Pow (Sub (AggMax (col_of c 0)) (AggMin (col_of c 0))) 2)
                                (Pow (Sub (AggMax (col_of c 1)) (AggMin (col_of c 1))) 2))))" for c
    by (simp add: amplitude_def check_position_columns_def Let_def split: option.splits)
  have 4: "disposition c = (case check_columns ''position_columns'' c of Some e \<Rightarrow> Inl e
      | None \<Rightarrow> Inr (Sqrt (Add (Pow (Sub (Head (col_of c 0) 1) (Head (Reverse (col_of c 0)) 1)) 2)
                                (Pow (Sub (Head (col_of c 1) 1) (Head (Reverse (col_of c 1)) 1)) 2))))"
    for c
    by (simp add: disposition_def check_position_columns_def Let_def split: option.splits)
  show ?thesis
    unfolding column_properties_def
    using column_argument_of [of peak_velocity, OF 1, of cols]
      column_argument_of [of dispersion, OF 2, of cols]
      column_argument_of [of amplitude, OF 3, of cols]
      column_argument_of [of disposition, OF 4, of cols]
    by (simp only: list.pred_inject prod.case simp_thms)
qed

theorem property_column_argument_witness:
  "\<not> isl (dispersion (PyTuple [PyStr ''x_pos'', PyStr ''y_pos'']))
   \<and> disposition (PyStr ''x_pos'')
       = Inl (TypeError ''position_columns must be of type tuple[str, str] but is of type str'')
   \<and> peak_velocity (PyTuple [PyStr ''x_vel''])
       = Inl (TypeError ''velocity_columns must be of length of 2 but is of length 1'')
   \<and> amplitude (PyTuple [PyStr ''x_pos'', PyInt 3])
       = Inl (TypeError ''position_columns must be of type tuple[str, str] but is tuple[str, int]'')"
  using property_column_argument [of "PyTuple [PyStr ''x_pos'', PyStr ''y_pos'']"]
    property_column_argument [of "PyStr ''x_pos''"]
    property_column_argument [of "PyTuple [PyStr ''x_vel'']"]
    property_column_argument [of "PyTuple [PyStr ''x_pos'', PyInt 3]"]
  unfolding column_properties_def
  by simp

subsection \<open>Event properties: translation of the signal\<close>




lemma columns_shift [simp]: "columns (shift_columns c cs fr) = columns fr"
  by (simp add: shift_columns_def)































subsection \<open>Event processing\<close>






































lemma first_occurrences_props [simp]:
  "distinct (first_occurrences xs)" "set (first_occurrences xs) = set xs"
  by (simp_all add: first_occurrences_def)




end
